theory Spec2Isabelle
  imports Complex_Main
begin

section \<open>Toolkit geometry: points, sizes and rectangles\<close>

text \<open>
  The toolkit's coordinate type is a C++ \<open>int\<close> of 32 bits. Sums and differences of
  coordinates are modelled in unbounded integers: they leave the range of \<open>int\<close> only for
  coordinates beyond \<open>2\<^sup>3\<^sup>0\<close> in magnitude. The two products of the source, by 1000000 in
  \<open>OnLayout\<close> and \<open>radius * radius\<close> in \<open>GetCornerPoint\<close>, leave the range for moderate
  values already; they are written with the wrap-around of a 32-bit \<open>int\<close>: \<open>i32 v\<close> is
  the value such an \<open>int\<close> holds for the mathematical result \<open>v\<close>.
  C++ integer division truncates towards zero; \<open>cdiv\<close> writes that out.
\<close>

definition cdiv :: "int \<Rightarrow> int \<Rightarrow> int" where
  "cdiv a b = sgn a * sgn b * (\<bar>a\<bar> div \<bar>b\<bar>)"

definition i32 :: "int \<Rightarrow> int" where
  "i32 v = (v + 2147483648) mod 4294967296 - 2147483648"

record wxPoint =
  pt_x :: int
  pt_y :: int

record wxSize =
  sz_x :: int
  sz_y :: int

record wxRect =
  rc_x :: int
  rc_y :: int
  rc_width :: int
  rc_height :: int

text \<open>
  Modelled from the spec: the toolkit's rectangle type \<open>wxRect\<close> is not part of the
  sources. The default rectangle is all zero, a rectangle is empty when a dimension is not
  positive, its right and bottom are the last column and row it contains, \<open>Inside\<close> tests
  containment with the left and top edges included and the right and bottom limits excluded,
  and \<open>Deflate\<close> shrinks it by a fixed margin on all four sides (as in the spec's scenario:
  rect(0,0,100,60) deflated by 13 is rect(13,13,74,34)).
\<close>

definition wxRect0 :: wxRect where
  "wxRect0 = \<lparr>rc_x = 0, rc_y = 0, rc_width = 0, rc_height = 0\<rparr>"

definition mkRect :: "int \<Rightarrow> int \<Rightarrow> int \<Rightarrow> int \<Rightarrow> wxRect" where
  "mkRect x y w h = \<lparr>rc_x = x, rc_y = y, rc_width = w, rc_height = h\<rparr>"

definition mkPoint :: "int \<Rightarrow> int \<Rightarrow> wxPoint" where
  "mkPoint x y = \<lparr>pt_x = x, pt_y = y\<rparr>"

definition IsEmpty :: "wxRect \<Rightarrow> bool" where
  "IsEmpty r \<longleftrightarrow> rc_width r \<le> 0 \<or> rc_height r \<le> 0"

definition GetRight :: "wxRect \<Rightarrow> int" where
  "GetRight r = rc_x r + rc_width r - 1"

definition GetBottom :: "wxRect \<Rightarrow> int" where
  "GetBottom r = rc_y r + rc_height r - 1"

definition GetTopLeft :: "wxRect \<Rightarrow> wxPoint" where
  "GetTopLeft r = mkPoint (rc_x r) (rc_y r)"

definition GetBottomRight :: "wxRect \<Rightarrow> wxPoint" where
  "GetBottomRight r = mkPoint (GetRight r) (GetBottom r)"

definition GetSize :: "wxRect \<Rightarrow> wxSize" where
  "GetSize r = \<lparr>sz_x = rc_width r, sz_y = rc_height r\<rparr>"

definition Inside :: "wxRect \<Rightarrow> wxPoint \<Rightarrow> bool" where
  "Inside r p \<longleftrightarrow>
     pt_x p \<ge> rc_x r \<and> pt_y p \<ge> rc_y r \<and>
     pt_y p - rc_y r < rc_height r \<and> pt_x p - rc_x r < rc_width r"

definition Deflate :: "wxRect \<Rightarrow> int \<Rightarrow> wxRect" where
  "Deflate r d =
     \<lparr>rc_x = rc_x r + d, rc_y = rc_y r + d,
      rc_width = rc_width r - 2 * d, rc_height = rc_height r - 2 * d\<rparr>"

definition pt_sub :: "wxPoint \<Rightarrow> wxPoint \<Rightarrow> wxPoint" where
  "pt_sub p q = mkPoint (pt_x p - pt_x q) (pt_y p - pt_y q)"

definition pt_add :: "wxPoint \<Rightarrow> wxPoint \<Rightarrow> wxPoint" where
  "pt_add p q = mkPoint (pt_x p + pt_x q) (pt_y p + pt_y q)"

section \<open>The node's state\<close>

text \<open>
  \<open>GraphNode::Style\<close> is an enumeration whose first member is \<open>Style_Custom\<close>; the
  node stores it as an \<open>int\<close>, and derived classes may add further styles.
\<close>

definition Style_Custom :: int where "Style_Custom = 0"
definition Style_Rectangle :: int where "Style_Rectangle = 1"
definition Style_Elipse :: int where "Style_Elipse = 2"
definition Style_Triangle :: int where "Style_Triangle = 3"
definition Style_Diamond :: int where "Style_Diamond = 4"

text \<open>
  Modelled from the spec: the declaration of the hit-test tags is not part of the sources.
  They are five distinct values: none, generic body, label, result and icon.
\<close>

datatype hit = Hit_No | Hit_Yes | Hit_Operation | Hit_Result | Hit_Image

text \<open>A font is an opaque handle; an icon is either invalid or has pixel dimensions.\<close>

type_synonym wxFont = nat

record wxIcon =
  icon_ok :: bool
  icon_width :: int
  icon_height :: int

text \<open>
  The device context holds the currently selected font; its text measurement depends on
  that font and on the string measured.
\<close>

record wxDC =
  dc_font :: wxFont
  dc_extent :: "wxFont \<Rightarrow> string \<Rightarrow> int \<times> int"

definition dc_SetFont :: "wxFont \<Rightarrow> wxDC \<Rightarrow> wxDC" where
  "dc_SetFont f dc = dc\<lparr>dc_font := f\<rparr>"

definition GetMultiLineTextExtent :: "wxDC \<Rightarrow> string \<Rightarrow> int \<times> int" where
  "GetMultiLineTextExtent dc s = dc_extent dc (dc_font dc) s"

text \<open>
  The fields of \<open>ProjectNode\<close> together with the inherited state its methods read:
  style, text, font, and the bounds that \<open>GetBounds\<close> returns.
\<close>

record node =
  m_style :: int
  m_text :: string
  m_font :: wxFont
  m_id :: string
  m_result :: string
  m_icon :: wxIcon
  m_borderThickness :: int
  m_cornerRadius :: int
  m_rcText :: wxRect
  m_rcResult :: wxRect
  m_rcIcon :: wxRect
  m_minSize :: wxSize
  m_divide :: int
  node_bounds :: wxRect

text \<open>
  Modelled from the spec: \<open>GraphElement::GetBounds\<close> and \<open>GraphNode::SetSize\<close> are not
  part of the sources. The node owns its bounds (a position and a size); \<open>GetBounds\<close>
  reads them and resizing stores the new size.
\<close>

definition GetBounds :: "node \<Rightarrow> wxRect" where
  "GetBounds n = node_bounds n"

definition SetSize :: "wxSize \<Rightarrow> node \<Rightarrow> node" where
  "SetSize sz n =
     n\<lparr>node_bounds := (node_bounds n)\<lparr>rc_width := sz_x sz, rc_height := sz_y sz\<rparr>\<rparr>"

section \<open>Hit testing\<close>

definition HitTest :: "node \<Rightarrow> wxPoint \<Rightarrow> hit" where
  "HitTest n pt =
     (let bounds = GetBounds n in
      if \<not> Inside bounds pt then Hit_No
      else if m_style n = Style_Custom then
        (let ptNode = pt_sub pt (GetTopLeft bounds) in
         if Inside (m_rcText n) ptNode then Hit_Operation
         else if Inside (m_rcResult n) ptNode then Hit_Result
         else if Inside (m_rcIcon n) ptNode then Hit_Image
         else Hit_Yes)
      else Hit_Yes)"

section \<open>Setters\<close>

text \<open>
  Each setter writes its own fields and then hands the node to code that is not part of
  the sources: \<open>SetText\<close> and \<open>SetFont\<close> to the base class's setter, the others to
  \<open>Layout\<close>. That code is a parameter here. \<open>Refresh\<close> only marks the node's area
  of the canvas for repainting and leaves the node's state alone.
\<close>

definition SetText :: "(string \<Rightarrow> node \<Rightarrow> node) \<Rightarrow> string \<Rightarrow> node \<Rightarrow> node" where
  "SetText GraphNode_SetText text n = GraphNode_SetText text (n\<lparr>m_rcText := wxRect0\<rparr>)"

definition SetFont :: "(wxFont \<Rightarrow> node \<Rightarrow> node) \<Rightarrow> wxFont \<Rightarrow> node \<Rightarrow> node" where
  "SetFont GraphNode_SetFont font n =
     GraphNode_SetFont font (n\<lparr>m_rcText := wxRect0, m_rcResult := wxRect0\<rparr>)"

text \<open>
  Modelled from the spec: \<open>GraphNode::SetText\<close> and \<open>GraphNode::SetFont\<close> are not part of
  the sources. The node owns its label text and its font; the base class's setters store the
  new value (the layout pass that follows is taken separately, as \<open>OnLayout\<close>).
\<close>

definition GraphNode_SetText :: "string \<Rightarrow> node \<Rightarrow> node" where
  "GraphNode_SetText text n = n\<lparr>m_text := text\<rparr>"

definition GraphNode_SetFont :: "wxFont \<Rightarrow> node \<Rightarrow> node" where
  "GraphNode_SetFont font n = n\<lparr>m_font := font\<rparr>"

definition SetId :: "string \<Rightarrow> node \<Rightarrow> node" where
  "SetId text n = n\<lparr>m_id := text\<rparr>"

definition SetResult :: "(node \<Rightarrow> node) \<Rightarrow> string \<Rightarrow> node \<Rightarrow> node" where
  "SetResult Layout text n = Layout (n\<lparr>m_result := text, m_rcResult := wxRect0\<rparr>)"

definition SetIcon :: "(node \<Rightarrow> node) \<Rightarrow> wxIcon \<Rightarrow> node \<Rightarrow> node" where
  "SetIcon Layout icon n = Layout (n\<lparr>m_icon := icon, m_rcIcon := wxRect0\<rparr>)"

definition SetBorderThickness :: "(node \<Rightarrow> node) \<Rightarrow> int \<Rightarrow> node \<Rightarrow> node" where
  "SetBorderThickness Layout thickness n =
     Layout (n\<lparr>m_borderThickness := thickness,
               m_rcText := wxRect0, m_rcResult := wxRect0, m_rcIcon := wxRect0\<rparr>)"

definition SetCornerRadius :: "(node \<Rightarrow> node) \<Rightarrow> int \<Rightarrow> node \<Rightarrow> node" where
  "SetCornerRadius Layout radius n =
     Layout (n\<lparr>m_cornerRadius := radius,
               m_rcText := wxRect0, m_rcResult := wxRect0, m_rcIcon := wxRect0\<rparr>)"

section \<open>The layout pass\<close>

definition spacing :: "node \<Rightarrow> int" where
  "spacing n =
     m_cornerRadius n + cdiv (m_borderThickness n) 2 -
     cdiv (i32 ((m_cornerRadius n - cdiv (m_borderThickness n) 2) * 1000000)) 1414214"

text \<open>The blocks of \<open>OnLayout\<close>, in the order of the source.\<close>

definition layout_font :: "wxDC \<Rightarrow> node \<Rightarrow> wxDC" where
  "layout_font dc n =
     (if IsEmpty (m_rcText n) \<or> IsEmpty (m_rcResult n) then dc_SetFont (m_font n) dc else dc)"

definition layout_text :: "wxDC \<Rightarrow> node \<Rightarrow> node" where
  "layout_text dc n =
     (if IsEmpty (m_rcText n) then
        (case GetMultiLineTextExtent dc (m_text n) of
           (w, h) \<Rightarrow> n\<lparr>m_rcText := mkRect (spacing n) (spacing n) w h\<rparr>)
      else n)"

definition layout_icon :: "node \<Rightarrow> node" where
  "layout_icon n =
     (if icon_ok (m_icon n) \<and> IsEmpty (m_rcIcon n) then
        n\<lparr>m_rcIcon := mkRect (spacing n) 0 (icon_width (m_icon n)) (icon_height (m_icon n))\<rparr>
      else n)"

definition layout_result :: "wxDC \<Rightarrow> node \<Rightarrow> node" where
  "layout_result dc n =
     (let iconHSpace = rc_width (m_rcIcon n) + spacing n in
      if IsEmpty (m_rcResult n) then
        (case GetMultiLineTextExtent dc (m_result n) of
           (w, h) \<Rightarrow> n\<lparr>m_rcResult := mkRect (spacing n + iconHSpace) 0 w h\<rparr>)
      else n)"

definition layout_minSize :: "node \<Rightarrow> node" where
  "layout_minSize n =
     n\<lparr>m_minSize :=
         \<lparr>sz_x = max (GetRight (m_rcText n)) (GetRight (m_rcResult n)) + spacing n + 1,
          sz_y = max (rc_height (m_rcIcon n)) (rc_height (m_rcResult n)) +
                 GetBottom (m_rcText n) + 2 + 2 * spacing n - m_borderThickness n\<rparr>\<rparr>"

text \<open>
  The local copy of the bounds after the two assignments of the growth block; the source
  keeps using it for \<open>mid\<close> whether or not \<open>SetSize\<close> was called.
\<close>

definition grown_bounds :: "node \<Rightarrow> wxRect" where
  "grown_bounds n =
     (let bounds = GetBounds n in
      if rc_width bounds < sz_x (m_minSize n) \<or> rc_height bounds < sz_y (m_minSize n) then
        (let bounds = (if rc_width bounds < sz_x (m_minSize n)
                       then bounds\<lparr>rc_width := sz_x (m_minSize n)\<rparr> else bounds);
             bounds = (if rc_height bounds < sz_y (m_minSize n)
                       then bounds\<lparr>rc_height := sz_y (m_minSize n)\<rparr> else bounds)
         in bounds)
      else bounds)"

definition layout_grow :: "node \<Rightarrow> node" where
  "layout_grow n =
     (let bounds = GetBounds n in
      if rc_width bounds < sz_x (m_minSize n) \<or> rc_height bounds < sz_y (m_minSize n) then
        SetSize (GetSize (grown_bounds n)) n
      else n)"

definition layout_centre :: "wxRect \<Rightarrow> node \<Rightarrow> node" where
  "layout_centre bounds n =
     (let n = n\<lparr>m_divide := GetBottom (m_rcText n) + 1 + spacing n - m_borderThickness n\<rparr>;
          mid = cdiv (m_divide n + rc_height bounds) 2;
          n = n\<lparr>m_rcIcon := (m_rcIcon n)\<lparr>rc_y := mid - cdiv (rc_height (m_rcIcon n)) 2\<rparr>\<rparr>;
          n = n\<lparr>m_rcResult := (m_rcResult n)\<lparr>rc_y := mid - cdiv (rc_height (m_rcResult n)) 2\<rparr>\<rparr>
      in n)"

definition OnLayout :: "wxDC \<Rightarrow> node \<Rightarrow> wxDC \<times> node" where
  "OnLayout dc n =
     (let dc = layout_font dc n;
          n = layout_text dc n;
          n = layout_icon n;
          n = layout_result dc n;
          n = layout_minSize n;
          bounds = grown_bounds n;
          n = layout_grow n;
          n = layout_centre bounds n
      in (dc, n))"

text \<open>
  A node's caches are valid for a device context when a layout pass yields what it yields
  from empty caches: no cached rectangle is stale.
\<close>

definition reset_caches :: "node \<Rightarrow> node" where
  "reset_caches n = n\<lparr>m_rcText := wxRect0, m_rcResult := wxRect0, m_rcIcon := wxRect0\<rparr>"

definition caches_valid :: "wxDC \<Rightarrow> node \<Rightarrow> bool" where
  "caches_valid dc n \<longleftrightarrow> snd (OnLayout dc n) = snd (OnLayout dc (reset_caches n))"

section \<open>Perimeter points\<close>

text \<open>
  The corner solver computes in \<open>double\<close>. A \<open>double\<close> is a value of an arbitrary type
  \<open>'d\<close> here and the arithmetic on it is a parameter: the conversion from \<open>int\<close>, the four
  operations, the square root, and the conversion to \<open>int\<close>, which has no result for a NaN,
  an infinity or a value outside the range of \<open>int\<close> (the behaviour of the program is
  undefined then). What is proved for every such arithmetic holds for the arithmetic of the
  program.
\<close>

record 'd fp =
  fp_of_int :: "int \<Rightarrow> 'd"
  fp_add :: "'d \<Rightarrow> 'd \<Rightarrow> 'd"
  fp_sub :: "'d \<Rightarrow> 'd \<Rightarrow> 'd"
  fp_mul :: "'d \<Rightarrow> 'd \<Rightarrow> 'd"
  fp_div :: "'d \<Rightarrow> 'd \<Rightarrow> 'd"
  fp_sqrt :: "'d \<Rightarrow> 'd"
  fp_to_int :: "'d \<Rightarrow> int option"

datatype error = Undefined_Conversion

text \<open>
  The body of \<open>GetCornerPoint\<close> after \<open>radius++\<close>: the line \<open>y = m x + c\<close> through the two
  points translated by the centre, and its intersection with the circle
  \<open>x\<^sup>2 + y\<^sup>2 = radius\<^sup>2\<close>.
\<close>

definition line_m :: "'d fp \<Rightarrow> wxPoint \<Rightarrow> wxPoint \<Rightarrow> wxPoint \<Rightarrow> 'd" where
  "line_m fp centre inside outside =
     (let k = pt_sub inside centre; pt = pt_sub outside centre;
          m = fp_of_int fp (pt_y pt - pt_y k)
      in fp_div fp m (fp_of_int fp (pt_x pt - pt_x k)))"

definition line_c :: "'d fp \<Rightarrow> wxPoint \<Rightarrow> wxPoint \<Rightarrow> wxPoint \<Rightarrow> 'd" where
  "line_c fp centre inside outside =
     (let pt = pt_sub outside centre; m = line_m fp centre inside outside
      in fp_sub fp (fp_of_int fp (pt_y pt)) (fp_mul fp m (fp_of_int fp (pt_x pt))))"

text \<open>The argument of the square root.\<close>

definition discriminant :: "'d fp \<Rightarrow> wxPoint \<Rightarrow> int \<Rightarrow> wxPoint \<Rightarrow> wxPoint \<Rightarrow> 'd" where
  "discriminant fp centre radius inside outside =
     (let m = line_m fp centre inside outside;
          c = line_c fp centre inside outside;
          r2 = fp_of_int fp (i32 (radius * radius));
          m2 = fp_mul fp m m;
          c2 = fp_mul fp c c
      in fp_sub fp (fp_mul fp (fp_add fp m2 (fp_of_int fp 1)) r2) c2)"

text \<open>The solution \<open>(x, y)\<close> relative to the centre, before the conversion to \<open>int\<close>.\<close>

definition circle_xy :: "'d fp \<Rightarrow> wxPoint \<Rightarrow> int \<Rightarrow> int \<Rightarrow> wxPoint \<Rightarrow> wxPoint \<Rightarrow> 'd \<times> 'd" where
  "circle_xy fp centre radius sign inside outside =
     (let m = line_m fp centre inside outside;
          c = line_c fp centre inside outside;
          m2 = fp_mul fp m m;
          G = fp_sqrt fp (discriminant fp centre radius inside outside);
          x = fp_div fp (fp_sub fp (fp_mul fp (fp_of_int fp sign) G) (fp_mul fp c m))
                (fp_add fp m2 (fp_of_int fp 1));
          y = fp_div fp (fp_add fp (fp_mul fp (fp_mul fp (fp_of_int fp sign) G) m) c)
                (fp_add fp m2 (fp_of_int fp 1))
      in (x, y))"

definition solve_circle ::
  "'d fp \<Rightarrow> wxPoint \<Rightarrow> int \<Rightarrow> int \<Rightarrow> wxPoint \<Rightarrow> wxPoint \<Rightarrow> error + wxPoint" where
  "solve_circle fp centre radius sign inside outside =
     (case circle_xy fp centre radius sign inside outside of
        (x, y) \<Rightarrow>
          (case fp_to_int fp x of
             None \<Rightarrow> Inl Undefined_Conversion
           | Some a \<Rightarrow>
               (case fp_to_int fp y of
                  None \<Rightarrow> Inl Undefined_Conversion
                | Some b \<Rightarrow> Inr (pt_add centre (mkPoint a b)))))"

definition GetCornerPoint ::
  "'d fp \<Rightarrow> wxPoint \<Rightarrow> int \<Rightarrow> int \<Rightarrow> wxPoint \<Rightarrow> wxPoint \<Rightarrow> error + wxPoint" where
  "GetCornerPoint fp centre radius sign inside outside =
     (let radius = radius + 1
      in solve_circle fp centre radius sign inside outside)"

text \<open>
  The corner dispatch of \<open>GetPerimeterPoint\<close>: which call to \<open>GetCornerPoint\<close>, if any,
  is made for the plain-rectangle point \<open>pt\<close> and the deflated rectangle \<open>b\<close>, given as
  the centre and the sign passed.
\<close>

definition corner_call :: "wxRect \<Rightarrow> wxPoint \<Rightarrow> (wxPoint \<times> int) option" where
  "corner_call b pt =
     (if pt_x pt < rc_x b \<and> pt_y pt < rc_y b then Some (GetTopLeft b, - 1)
      else if pt_x pt > GetRight b \<and> pt_y pt < rc_y b then Some (mkPoint (GetRight b) (rc_y b), 1)
      else if pt_x pt < rc_x b \<and> pt_y pt > GetBottom b then Some (mkPoint (rc_x b) (GetBottom b), - 1)
      else if pt_x pt > GetRight b \<and> pt_y pt > GetBottom b then Some (GetBottomRight b, 1)
      else None)"

definition corner_radius :: "node \<Rightarrow> int" where
  "corner_radius n = m_cornerRadius n + cdiv (m_borderThickness n) 2"

text \<open>
  \<open>GraphNode::GetPerimeterPoint\<close>, the plain-rectangle perimeter point of the base class,
  is not part of the sources; it is the parameter \<open>base\<close>.
\<close>

definition GetPerimeterPoint ::
  "'d fp \<Rightarrow> (node \<Rightarrow> wxPoint \<Rightarrow> wxPoint \<Rightarrow> wxPoint) \<Rightarrow> node \<Rightarrow> wxPoint \<Rightarrow> wxPoint \<Rightarrow>
     error + wxPoint" where
  "GetPerimeterPoint fp base n inside outside =
     (let pt = base n inside outside;
          b = GetBounds n;
          r = corner_radius n;
          b = Deflate b r
      in if IsEmpty b \<or> pt_x inside = pt_x outside \<or> pt_y inside = pt_y outside then Inr pt
         else (case corner_call b pt of
                 None \<Rightarrow> Inr pt
               | Some (centre, sign) \<Rightarrow> GetCornerPoint fp centre r sign inside outside))"

text \<open>
  Arithmetic without rounding, to run the solver at concrete inputs. The finite values are
  the reals; one further value, \<open>NaN\<close>, stands for every result that is not finite (the
  square root of a negative number, a division by zero), and every operation passes it on.
  The conversion to \<open>int\<close> truncates towards zero and has no result for \<open>NaN\<close> or
  outside the range of \<open>int\<close>. Where the exact result of every operation of a computation
  is a binary fraction of few digits, IEEE double arithmetic returns the same finite values;
  this arithmetic is used at such inputs only.
\<close>

datatype dval = Num real | NaN

fun dv_arith :: "(real \<Rightarrow> real \<Rightarrow> real) \<Rightarrow> dval \<Rightarrow> dval \<Rightarrow> dval" where
  "dv_arith f (Num a) (Num b) = Num (f a b)"
| "dv_arith f _ _ = NaN"

fun dv_div :: "dval \<Rightarrow> dval \<Rightarrow> dval" where
  "dv_div (Num a) (Num b) = (if b = 0 then NaN else Num (a / b))"
| "dv_div _ _ = NaN"

fun dv_sqrt :: "dval \<Rightarrow> dval" where
  "dv_sqrt (Num a) = (if a < 0 then NaN else Num (sqrt a))"
| "dv_sqrt NaN = NaN"

definition truncate :: "real \<Rightarrow> int" where
  "truncate v = (if v \<ge> 0 then \<lfloor>v\<rfloor> else \<lceil>v\<rceil>)"

fun dv_to_int :: "dval \<Rightarrow> int option" where
  "dv_to_int (Num a) =
     (if - 2147483648 \<le> truncate a \<and> truncate a \<le> 2147483647 then Some (truncate a) else None)"
| "dv_to_int NaN = None"

definition exact_arith :: "dval fp" where
  "exact_arith =
     \<lparr>fp_of_int = (\<lambda>i. Num (real_of_int i)),
      fp_add = dv_arith (+), fp_sub = dv_arith (-), fp_mul = dv_arith (*),
      fp_div = dv_div, fp_sqrt = dv_sqrt, fp_to_int = dv_to_int\<rparr>"

section \<open>A sample node\<close>

text \<open>
  A node with the constructor's border thickness 6 and corner radius 10, bounds
  rect(0,0,100,60), a 16 by 16 icon, and the cached rectangles a layout pass leaves for a
  measurer that gives every character 7 by 12 pixels.
\<close>

definition demo_dc :: wxDC where
  "demo_dc = \<lparr>dc_font = 0, dc_extent = (\<lambda>f s. (7 * int (length s), 12))\<rparr>"

definition demo_node :: node where
  "demo_node =
     \<lparr>m_style = Style_Custom, m_text = ''sum'', m_font = 0, m_id = ''n1'', m_result = ''42'',
      m_icon = \<lparr>icon_ok = True, icon_width = 16, icon_height = 16\<rparr>,
      m_borderThickness = 6, m_cornerRadius = 10,
      m_rcText = mkRect 9 9 21 12, m_rcResult = mkRect 34 36 14 12,
      m_rcIcon = mkRect 9 34 16 16,
      m_minSize = \<lparr>sz_x = 57, sz_y = 50\<rparr>, m_divide = 24,
      node_bounds = mkRect 0 0 100 60\<rparr>"

text \<open>The same node before its first layout pass: nothing cached, bounds still empty.\<close>

definition fresh_node :: node where
  "fresh_node =
     demo_node\<lparr>m_rcText := wxRect0, m_rcResult := wxRect0, m_rcIcon := wxRect0,
               m_minSize := \<lparr>sz_x = 0, sz_y = 0\<rparr>, m_divide := 0,
               node_bounds := mkRect 40 20 0 0\<rparr>"

text \<open>The sample node with corner radius 11, and a wider icon.\<close>

definition demo_node11 :: node where
  "demo_node11 = demo_node\<lparr>m_cornerRadius := 11\<rparr>"

definition wide_icon :: wxIcon where
  "wide_icon = \<lparr>icon_ok = True, icon_width = 32, icon_height = 24\<rparr>"

section \<open>Basic facts\<close>

lemmas geom_defs = Inside_def mkPoint_def mkRect_def pt_sub_def pt_add_def GetTopLeft_def
  GetBounds_def GetRight_def GetBottom_def GetBottomRight_def IsEmpty_def Deflate_def
  wxRect0_def GetSize_def

lemma spacing_update [simp]:
  "spacing (n\<lparr>m_rcText := a\<rparr>) = spacing n"
  "spacing (n\<lparr>m_rcResult := b\<rparr>) = spacing n"
  "spacing (n\<lparr>m_rcIcon := c\<rparr>) = spacing n"
  "spacing (n\<lparr>m_minSize := d\<rparr>) = spacing n"
  "spacing (n\<lparr>m_divide := e\<rparr>) = spacing n"
  "spacing (n\<lparr>node_bounds := f\<rparr>) = spacing n"
  by (simp_all add: spacing_def)

subsection \<open>What each block of the layout pass changes\<close>

lemma layout_centre_same:
  "m_style (layout_centre b n) = m_style n"
  "m_text (layout_centre b n) = m_text n"
  "m_font (layout_centre b n) = m_font n"
  "m_id (layout_centre b n) = m_id n"
  "m_result (layout_centre b n) = m_result n"
  "m_icon (layout_centre b n) = m_icon n"
  "m_borderThickness (layout_centre b n) = m_borderThickness n"
  "m_cornerRadius (layout_centre b n) = m_cornerRadius n"
  "m_rcText (layout_centre b n) = m_rcText n"
  "m_minSize (layout_centre b n) = m_minSize n"
  "node_bounds (layout_centre b n) = node_bounds n"
  "node.more (layout_centre b n) = node.more n"
  "spacing (layout_centre b n) = spacing n"
  by (simp_all add: layout_centre_def Let_def)

lemma layout_centre_changed:
  "m_divide (layout_centre b n) = GetBottom (m_rcText n) + 1 + spacing n - m_borderThickness n"
  "m_rcIcon (layout_centre b n) =
     (m_rcIcon n)\<lparr>rc_y := cdiv (GetBottom (m_rcText n) + 1 + spacing n - m_borderThickness n
                               + rc_height b) 2 - cdiv (rc_height (m_rcIcon n)) 2\<rparr>"
  "m_rcResult (layout_centre b n) =
     (m_rcResult n)\<lparr>rc_y := cdiv (GetBottom (m_rcText n) + 1 + spacing n - m_borderThickness n
                               + rc_height b) 2 - cdiv (rc_height (m_rcResult n)) 2\<rparr>"
  by (simp_all add: layout_centre_def Let_def)

lemma grown_bounds_eq:
  "grown_bounds n =
     (node_bounds n)\<lparr>rc_width := max (rc_width (node_bounds n)) (sz_x (m_minSize n)),
                      rc_height := max (rc_height (node_bounds n)) (sz_y (m_minSize n))\<rparr>"
  by (simp add: grown_bounds_def Let_def GetBounds_def max_def)

lemma layout_grow_same:
  "m_style (layout_grow n) = m_style n"
  "m_text (layout_grow n) = m_text n"
  "m_font (layout_grow n) = m_font n"
  "m_id (layout_grow n) = m_id n"
  "m_result (layout_grow n) = m_result n"
  "m_icon (layout_grow n) = m_icon n"
  "m_borderThickness (layout_grow n) = m_borderThickness n"
  "m_cornerRadius (layout_grow n) = m_cornerRadius n"
  "m_rcText (layout_grow n) = m_rcText n"
  "m_rcIcon (layout_grow n) = m_rcIcon n"
  "m_rcResult (layout_grow n) = m_rcResult n"
  "m_minSize (layout_grow n) = m_minSize n"
  "m_divide (layout_grow n) = m_divide n"
  "node.more (layout_grow n) = node.more n"
  "spacing (layout_grow n) = spacing n"
  by (simp_all add: layout_grow_def Let_def SetSize_def)

lemma layout_grow_bounds:
  "node_bounds (layout_grow n) = grown_bounds n"
  by (simp add: layout_grow_def grown_bounds_eq Let_def SetSize_def GetSize_def GetBounds_def max_def)

lemma layout_minSize_same:
  "m_style (layout_minSize n) = m_style n"
  "m_text (layout_minSize n) = m_text n"
  "m_font (layout_minSize n) = m_font n"
  "m_id (layout_minSize n) = m_id n"
  "m_result (layout_minSize n) = m_result n"
  "m_icon (layout_minSize n) = m_icon n"
  "m_borderThickness (layout_minSize n) = m_borderThickness n"
  "m_cornerRadius (layout_minSize n) = m_cornerRadius n"
  "m_rcText (layout_minSize n) = m_rcText n"
  "m_rcIcon (layout_minSize n) = m_rcIcon n"
  "m_rcResult (layout_minSize n) = m_rcResult n"
  "m_divide (layout_minSize n) = m_divide n"
  "node_bounds (layout_minSize n) = node_bounds n"
  "node.more (layout_minSize n) = node.more n"
  "spacing (layout_minSize n) = spacing n"
  by (simp_all add: layout_minSize_def)

lemma layout_minSize_changed:
  "sz_x (m_minSize (layout_minSize n)) =
     max (GetRight (m_rcText n)) (GetRight (m_rcResult n)) + spacing n + 1"
  "sz_y (m_minSize (layout_minSize n)) =
     max (rc_height (m_rcIcon n)) (rc_height (m_rcResult n)) +
     GetBottom (m_rcText n) + 2 + 2 * spacing n - m_borderThickness n"
  by (simp_all add: layout_minSize_def)

lemma GetRight_y [simp]: "GetRight (r\<lparr>rc_y := a\<rparr>) = GetRight r"
  by (simp add: GetRight_def)

lemmas finish_simps = layout_centre_same layout_centre_changed grown_bounds_eq
  layout_grow_same layout_grow_bounds layout_minSize_same layout_minSize_changed

lemma minSize_eqI: "sz_x a = sz_x b \<Longrightarrow> sz_y a = sz_y b \<Longrightarrow> (a::wxSize) = b"
  by simp

lemma finish_ignores_y:
  assumes "s' = s\<lparr>m_rcIcon := (m_rcIcon s)\<lparr>rc_y := a\<rparr>, m_rcResult := (m_rcResult s)\<lparr>rc_y := b\<rparr>\<rparr>"
  shows "layout_centre (grown_bounds (layout_minSize s')) (layout_grow (layout_minSize s')) =
   layout_centre (grown_bounds (layout_minSize s)) (layout_grow (layout_minSize s))"
proof (rule node.equality)
  show "m_minSize (layout_centre (grown_bounds (layout_minSize s')) (layout_grow (layout_minSize s'))) =
     m_minSize (layout_centre (grown_bounds (layout_minSize s)) (layout_grow (layout_minSize s)))"
    by (rule minSize_eqI) (simp_all add: finish_simps assms spacing_def)
qed (simp_all add: finish_simps assms spacing_def)

lemma finish_idem:
  assumes "N = layout_centre (grown_bounds (layout_minSize s)) (layout_grow (layout_minSize s))"
  shows "layout_centre (grown_bounds (layout_minSize N)) (layout_grow (layout_minSize N)) = N"
proof (rule node.equality)
  show "m_minSize (layout_centre (grown_bounds (layout_minSize N)) (layout_grow (layout_minSize N))) =
     m_minSize N"
    by (rule minSize_eqI) (simp_all add: finish_simps assms)
qed (simp_all add: finish_simps assms)


lemma layout_text_same:
  "m_style (layout_text dc n) = m_style n"
  "m_text (layout_text dc n) = m_text n"
  "m_font (layout_text dc n) = m_font n"
  "m_id (layout_text dc n) = m_id n"
  "m_result (layout_text dc n) = m_result n"
  "m_icon (layout_text dc n) = m_icon n"
  "m_borderThickness (layout_text dc n) = m_borderThickness n"
  "m_cornerRadius (layout_text dc n) = m_cornerRadius n"
  "m_rcIcon (layout_text dc n) = m_rcIcon n"
  "m_rcResult (layout_text dc n) = m_rcResult n"
  "m_minSize (layout_text dc n) = m_minSize n"
  "m_divide (layout_text dc n) = m_divide n"
  "node_bounds (layout_text dc n) = node_bounds n"
  "node.more (layout_text dc n) = node.more n"
  "spacing (layout_text dc n) = spacing n"
  by (simp_all add: layout_text_def split: prod.splits)

lemma layout_text_changed:
  "m_rcText (layout_text dc n) =
     (if IsEmpty (m_rcText n)
      then mkRect (spacing n) (spacing n) (fst (GetMultiLineTextExtent dc (m_text n)))
             (snd (GetMultiLineTextExtent dc (m_text n)))
      else m_rcText n)"
  by (simp add: layout_text_def split: prod.splits)

lemma layout_icon_same:
  "m_style (layout_icon n) = m_style n"
  "m_text (layout_icon n) = m_text n"
  "m_font (layout_icon n) = m_font n"
  "m_id (layout_icon n) = m_id n"
  "m_result (layout_icon n) = m_result n"
  "m_icon (layout_icon n) = m_icon n"
  "m_borderThickness (layout_icon n) = m_borderThickness n"
  "m_cornerRadius (layout_icon n) = m_cornerRadius n"
  "m_rcText (layout_icon n) = m_rcText n"
  "m_rcResult (layout_icon n) = m_rcResult n"
  "m_minSize (layout_icon n) = m_minSize n"
  "m_divide (layout_icon n) = m_divide n"
  "node_bounds (layout_icon n) = node_bounds n"
  "node.more (layout_icon n) = node.more n"
  "spacing (layout_icon n) = spacing n"
  by (simp_all add: layout_icon_def)

lemma layout_icon_changed:
  "m_rcIcon (layout_icon n) =
     (if icon_ok (m_icon n) \<and> IsEmpty (m_rcIcon n)
      then mkRect (spacing n) 0 (icon_width (m_icon n)) (icon_height (m_icon n))
      else m_rcIcon n)"
  by (simp add: layout_icon_def)

lemma layout_result_same:
  "m_style (layout_result dc n) = m_style n"
  "m_text (layout_result dc n) = m_text n"
  "m_font (layout_result dc n) = m_font n"
  "m_id (layout_result dc n) = m_id n"
  "m_result (layout_result dc n) = m_result n"
  "m_icon (layout_result dc n) = m_icon n"
  "m_borderThickness (layout_result dc n) = m_borderThickness n"
  "m_cornerRadius (layout_result dc n) = m_cornerRadius n"
  "m_rcText (layout_result dc n) = m_rcText n"
  "m_rcIcon (layout_result dc n) = m_rcIcon n"
  "m_minSize (layout_result dc n) = m_minSize n"
  "m_divide (layout_result dc n) = m_divide n"
  "node_bounds (layout_result dc n) = node_bounds n"
  "node.more (layout_result dc n) = node.more n"
  "spacing (layout_result dc n) = spacing n"
  by (simp_all add: layout_result_def Let_def split: prod.splits)

lemma layout_result_changed:
  "m_rcResult (layout_result dc n) =
     (if IsEmpty (m_rcResult n)
      then mkRect (spacing n + (rc_width (m_rcIcon n) + spacing n)) 0
             (fst (GetMultiLineTextExtent dc (m_result n)))
             (snd (GetMultiLineTextExtent dc (m_result n)))
      else m_rcResult n)"
  by (simp add: layout_result_def Let_def split: prod.splits)

lemma extent_layout_font:
  "IsEmpty (m_rcText n) \<or> IsEmpty (m_rcResult n) \<Longrightarrow>
     GetMultiLineTextExtent (layout_font dc n) s = dc_extent dc (m_font n) s"
  by (simp add: layout_font_def GetMultiLineTextExtent_def dc_SetFont_def)

lemma IsEmpty_y [simp]: "IsEmpty (r\<lparr>rc_y := a\<rparr>) = IsEmpty r"
  by (simp add: IsEmpty_def)

lemma mkRect_y [simp]: "(mkRect x y w h)\<lparr>rc_y := a\<rparr> = mkRect x a w h"
  by (simp add: mkRect_def)

lemmas rects_simps = layout_text_same layout_text_changed layout_icon_same layout_icon_changed
  layout_result_same layout_result_changed

lemma OnLayout_snd:
  "snd (OnLayout dc n) =
     layout_centre
       (grown_bounds (layout_minSize (layout_result (layout_font dc n)
          (layout_icon (layout_text (layout_font dc n) n)))))
       (layout_grow (layout_minSize (layout_result (layout_font dc n)
          (layout_icon (layout_text (layout_font dc n) n)))))"
  by (simp add: OnLayout_def Let_def)


lemma OnLayout_inputs:
  "m_text (snd (OnLayout dc n)) = m_text n"
  "m_font (snd (OnLayout dc n)) = m_font n"
  "m_result (snd (OnLayout dc n)) = m_result n"
  "m_icon (snd (OnLayout dc n)) = m_icon n"
  "spacing (snd (OnLayout dc n)) = spacing n"
  by (simp_all add: OnLayout_snd finish_simps rects_simps)

lemma OnLayout_rcText:
  "m_rcText (snd (OnLayout dc n)) =
     (if IsEmpty (m_rcText n)
      then mkRect (spacing n) (spacing n) (fst (dc_extent dc (m_font n) (m_text n)))
             (snd (dc_extent dc (m_font n) (m_text n)))
      else m_rcText n)"
  by (simp add: OnLayout_snd finish_simps rects_simps extent_layout_font)

lemma OnLayout_rcIcon:
  "(m_rcIcon (snd (OnLayout dc n)))\<lparr>rc_y := 0\<rparr> =
     (if icon_ok (m_icon n) \<and> IsEmpty (m_rcIcon n)
      then mkRect (spacing n) 0 (icon_width (m_icon n)) (icon_height (m_icon n))
      else (m_rcIcon n)\<lparr>rc_y := 0\<rparr>)"
  by (simp add: OnLayout_snd finish_simps rects_simps)

lemma OnLayout_rcResult:
  "(m_rcResult (snd (OnLayout dc n)))\<lparr>rc_y := 0\<rparr> =
     (if IsEmpty (m_rcResult n)
      then mkRect (spacing n + (rc_width (m_rcIcon (snd (OnLayout dc n))) + spacing n)) 0
             (fst (dc_extent dc (m_font n) (m_result n)))
             (snd (dc_extent dc (m_font n) (m_result n)))
      else (m_rcResult n)\<lparr>rc_y := 0\<rparr>)"
  by (simp add: OnLayout_snd finish_simps rects_simps extent_layout_font)

lemma rect_up_to_y:
  "(r::wxRect)\<lparr>rc_y := 0\<rparr> = r'\<lparr>rc_y := 0\<rparr> \<Longrightarrow> r\<lparr>rc_y := rc_y r'\<rparr> = r'"
  by (cases r, cases r') simp

lemma second_text:
  assumes ext: "dc_extent dc2 = dc_extent dc"
    and N: "N = snd (OnLayout dc n)"
  shows "m_rcText (layout_text (layout_font dc2 N) N) = m_rcText N"
proof (cases "IsEmpty (m_rcText N)")
  case True
  then have "IsEmpty (m_rcText n)"
    unfolding N OnLayout_rcText by (simp split: if_splits)
  then have "m_rcText N = mkRect (spacing n) (spacing n) (fst (dc_extent dc (m_font n) (m_text n)))
             (snd (dc_extent dc (m_font n) (m_text n)))"
    unfolding N OnLayout_rcText by simp
  with True show ?thesis
    by (simp add: layout_text_changed extent_layout_font ext) (simp add: N OnLayout_inputs)
next
  case False
  then show ?thesis by (simp add: layout_text_changed)
qed

lemma second_icon:
  assumes N: "N = snd (OnLayout dc n)"
  shows "(m_rcIcon (layout_icon N))\<lparr>rc_y := 0\<rparr> = (m_rcIcon N)\<lparr>rc_y := 0\<rparr>"
proof (cases "icon_ok (m_icon N) \<and> IsEmpty (m_rcIcon N)")
  case True
  have "IsEmpty (m_rcIcon N) = IsEmpty ((m_rcIcon N)\<lparr>rc_y := 0\<rparr>)" by simp
  then have e: "IsEmpty (m_rcIcon N) = IsEmpty (if icon_ok (m_icon n) \<and> IsEmpty (m_rcIcon n)
      then mkRect (spacing n) 0 (icon_width (m_icon n)) (icon_height (m_icon n))
      else (m_rcIcon n)\<lparr>rc_y := 0\<rparr>)"
    unfolding N OnLayout_rcIcon .
  from True have ok: "icon_ok (m_icon n)" by (simp add: N OnLayout_inputs)
  from True e ok have "IsEmpty (m_rcIcon n)" by (simp split: if_splits)
  with ok have "(m_rcIcon N)\<lparr>rc_y := 0\<rparr> =
      mkRect (spacing n) 0 (icon_width (m_icon n)) (icon_height (m_icon n))"
    unfolding N OnLayout_rcIcon by simp
  with True show ?thesis
    by (simp add: layout_icon_changed) (simp add: N OnLayout_inputs)
next
  case False
  then show ?thesis by (auto simp add: layout_icon_changed)
qed


lemma second_result:
  assumes ext: "dc_extent dc2 = dc_extent dc"
    and N: "N = snd (OnLayout dc n)"
    and M: "m_rcResult M = m_rcResult N" "m_result M = m_result N" "spacing M = spacing N"
       "rc_width (m_rcIcon M) = rc_width (m_rcIcon N)"
  shows "(m_rcResult (layout_result (layout_font dc2 N) M))\<lparr>rc_y := 0\<rparr> = (m_rcResult N)\<lparr>rc_y := 0\<rparr>"
proof (cases "IsEmpty (m_rcResult N)")
  case True
  have "IsEmpty (m_rcResult N) = IsEmpty ((m_rcResult N)\<lparr>rc_y := 0\<rparr>)" by simp
  then have e: "IsEmpty (m_rcResult N) = IsEmpty (if IsEmpty (m_rcResult n)
      then mkRect (spacing n + (rc_width (m_rcIcon (snd (OnLayout dc n))) + spacing n)) 0
             (fst (dc_extent dc (m_font n) (m_result n)))
             (snd (dc_extent dc (m_font n) (m_result n)))
      else (m_rcResult n)\<lparr>rc_y := 0\<rparr>)"
    unfolding N OnLayout_rcResult .
  from True e have "IsEmpty (m_rcResult n)" by (simp split: if_splits)
  then have "(m_rcResult N)\<lparr>rc_y := 0\<rparr> =
      mkRect (spacing n + (rc_width (m_rcIcon N) + spacing n)) 0
             (fst (dc_extent dc (m_font n) (m_result n)))
             (snd (dc_extent dc (m_font n) (m_result n)))"
    unfolding N OnLayout_rcResult by simp
  with True show ?thesis
    by (simp add: layout_result_changed extent_layout_font ext M) (simp add: N OnLayout_inputs)
next
  case False
  then show ?thesis by (simp add: layout_result_changed M)
qed


lemma icon_after_text:
  "m_rcIcon (layout_icon (layout_text d N)) = m_rcIcon (layout_icon N)"
  by (simp add: layout_icon_changed layout_text_same)

lemma second_pass_rects:
  assumes ext: "dc_extent dc2 = dc_extent dc"
    and N: "N = snd (OnLayout dc n)"
    and S: "S = layout_result (layout_font dc2 N) (layout_icon (layout_text (layout_font dc2 N) N))"
  shows "S = N\<lparr>m_rcIcon := (m_rcIcon N)\<lparr>rc_y := rc_y (m_rcIcon S)\<rparr>,
               m_rcResult := (m_rcResult N)\<lparr>rc_y := rc_y (m_rcResult S)\<rparr>\<rparr>"
proof (rule node.equality)
  have "m_rcText S = m_rcText N"
    unfolding S using second_text [OF ext N] by (simp add: layout_result_same layout_icon_same)
  then show "m_rcText S =
    m_rcText (N\<lparr>m_rcIcon := (m_rcIcon N)\<lparr>rc_y := rc_y (m_rcIcon S)\<rparr>,
               m_rcResult := (m_rcResult N)\<lparr>rc_y := rc_y (m_rcResult S)\<rparr>\<rparr>)"
    by simp
next
  have i: "m_rcIcon S = m_rcIcon (layout_icon N)"
    unfolding S by (simp only: layout_result_same icon_after_text)
  have "(m_rcIcon N)\<lparr>rc_y := rc_y (m_rcIcon (layout_icon N))\<rparr> = m_rcIcon (layout_icon N)"
    by (rule rect_up_to_y) (rule second_icon [OF N, symmetric])
  with i show "m_rcIcon S =
    m_rcIcon (N\<lparr>m_rcIcon := (m_rcIcon N)\<lparr>rc_y := rc_y (m_rcIcon S)\<rparr>,
               m_rcResult := (m_rcResult N)\<lparr>rc_y := rc_y (m_rcResult S)\<rparr>\<rparr>)"
    by simp
next
  have "rc_width ((m_rcIcon (layout_icon N))\<lparr>rc_y := 0\<rparr>) = rc_width ((m_rcIcon N)\<lparr>rc_y := 0\<rparr>)"
    by (rule arg_cong [OF second_icon [OF N]])
  then have w: "rc_width (m_rcIcon (layout_icon (layout_text (layout_font dc2 N) N))) =
      rc_width (m_rcIcon N)"
    unfolding icon_after_text by simp
  have "(m_rcResult S)\<lparr>rc_y := 0\<rparr> = (m_rcResult N)\<lparr>rc_y := 0\<rparr>"
    unfolding S
    by (rule second_result [OF ext N]) (simp_all only: layout_icon_same layout_text_same w)
  then have "(m_rcResult N)\<lparr>rc_y := rc_y (m_rcResult S)\<rparr> = m_rcResult S"
    by (intro rect_up_to_y) simp
  then show "m_rcResult S =
    m_rcResult (N\<lparr>m_rcIcon := (m_rcIcon N)\<lparr>rc_y := rc_y (m_rcIcon S)\<rparr>,
               m_rcResult := (m_rcResult N)\<lparr>rc_y := rc_y (m_rcResult S)\<rparr>\<rparr>)"
    by simp
qed (simp_all add: S rects_simps)

subsection \<open>The sample node's geometry\<close>

lemma i32_id: "- 2147483648 \<le> v \<Longrightarrow> v \<le> 2147483647 \<Longrightarrow> i32 v = v"
  by (simp add: i32_def)

lemma mkPoint_sel [simp]: "pt_x (mkPoint a b) = a" "pt_y (mkPoint a b) = b"
  by (simp_all add: mkPoint_def)

lemma mkRect_sel [simp]:
  "rc_x (mkRect a b c d) = a" "rc_y (mkRect a b c d) = b"
  "rc_width (mkRect a b c d) = c" "rc_height (mkRect a b c d) = d"
  by (simp_all add: mkRect_def)

lemma cdiv_6_2 [simp]: "cdiv 6 2 = 3"
  by (simp add: cdiv_def)

lemma demo_params: "m_cornerRadius demo_node = 10" "m_borderThickness demo_node = 6"
  by (simp_all add: demo_node_def)

lemma demo11_params: "m_cornerRadius demo_node11 = 11" "m_borderThickness demo_node11 = 6"
  by (simp_all add: demo_node11_def demo_params)

lemma demo_spacing: "spacing demo_node = 9"
  by (simp add: spacing_def demo_params i32_def) (simp add: cdiv_def)

text \<open>
  Once cornerRadius - borderThickness/2 reaches 2148 (with border thickness 6: a corner
  radius of 2151) the product by 1000000 no longer fits an \<open>int\<close> and the spacing is
  computed from the wrapped product.
\<close>

lemma spacing_wraps: "spacing (demo_node\<lparr>m_cornerRadius := 2151\<rparr>) = 3672"
  by (simp add: spacing_def demo_params i32_def) (simp add: cdiv_def)

lemma demo_radius: "corner_radius demo_node = 13"
  by (simp add: corner_radius_def demo_params)

lemma demo_bounds: "GetBounds demo_node = mkRect 0 0 100 60"
  "GetBounds demo_node11 = mkRect 0 0 100 60"
  by (simp_all add: demo_node_def demo_node11_def GetBounds_def)

lemma demo_deflated: "Deflate (mkRect 0 0 100 60) 13 = mkRect 13 13 74 34"
  "Deflate (mkRect 0 0 100 60) 14 = mkRect 14 14 72 32"
  by (simp_all add: Deflate_def mkRect_def)

lemma exact_arith_sel [simp]:
  "fp_of_int exact_arith i = Num (real_of_int i)"
  "fp_add exact_arith = dv_arith (+)"
  "fp_sub exact_arith = dv_arith (-)"
  "fp_mul exact_arith = dv_arith (*)"
  "fp_div exact_arith = dv_div"
  "fp_sqrt exact_arith = dv_sqrt"
  "fp_to_int exact_arith = dv_to_int"
  by (simp_all add: exact_arith_def)

lemma sqrt_5625_16: "sqrt (5625 / 16) = 75 / 4"
  by (rule real_sqrt_unique) (simp_all add: power2_eq_square)

lemma i32_225 [simp]: "i32 225 = 225" "i32 196 = 196"
  by (simp_all add: i32_def)

subsection \<open>The corner dispatch\<close>

lemma corner_call_centre:
  "corner_call b pt = Some (centre, sg) \<Longrightarrow>
     centre \<in> {GetTopLeft b, mkPoint (GetRight b) (rc_y b),
               mkPoint (rc_x b) (GetBottom b), GetBottomRight b}"
  by (auto simp add: corner_call_def split: if_splits)

lemma GetPerimeterPoint_call:
  assumes "\<not> IsEmpty (Deflate (GetBounds n) (corner_radius n))"
    and "pt_x inside \<noteq> pt_x outside" and "pt_y inside \<noteq> pt_y outside"
    and "corner_call (Deflate (GetBounds n) (corner_radius n)) (base n inside outside) =
           Some (centre, sg)"
  shows "GetPerimeterPoint fp base n inside outside =
           GetCornerPoint fp centre (corner_radius n) sg inside outside"
  using assms by (simp add: GetPerimeterPoint_def Let_def)

subsection \<open>Valid caches\<close>

text \<open>
  A layout pass is determined by the node's other fields and by the cached rectangles the
  pass ends with, the icon and result rectangles up to their vertical position, which the
  pass sets anew every time.
\<close>

lemma wxRect0_y [simp]: "wxRect0\<lparr>rc_y := 0\<rparr> = wxRect0"
  by (simp add: wxRect0_def)

lemma IsEmpty_wxRect0 [simp]: "IsEmpty wxRect0"
  by (simp add: IsEmpty_def wxRect0_def)

lemma wxRect0_sel [simp]:
  "rc_x wxRect0 = 0" "rc_y wxRect0 = 0" "rc_width wxRect0 = 0" "rc_height wxRect0 = 0"
  by (simp_all add: wxRect0_def)

lemma reset_caches_same:
  "m_style (reset_caches n) = m_style n"
  "m_text (reset_caches n) = m_text n"
  "m_font (reset_caches n) = m_font n"
  "m_id (reset_caches n) = m_id n"
  "m_result (reset_caches n) = m_result n"
  "m_icon (reset_caches n) = m_icon n"
  "m_borderThickness (reset_caches n) = m_borderThickness n"
  "m_cornerRadius (reset_caches n) = m_cornerRadius n"
  "m_minSize (reset_caches n) = m_minSize n"
  "m_divide (reset_caches n) = m_divide n"
  "node_bounds (reset_caches n) = node_bounds n"
  "node.more (reset_caches n) = node.more n"
  "spacing (reset_caches n) = spacing n"
  by (simp_all add: reset_caches_def)

lemma reset_caches_changed:
  "m_rcText (reset_caches n) = wxRect0"
  "m_rcResult (reset_caches n) = wxRect0"
  "m_rcIcon (reset_caches n) = wxRect0"
  by (simp_all add: reset_caches_def)

lemma reset_caches_eqD:
  assumes "reset_caches a = reset_caches b"
  shows "m_style a = m_style b" "m_text a = m_text b" "m_font a = m_font b" "m_id a = m_id b"
    "m_result a = m_result b" "m_icon a = m_icon b"
    "m_borderThickness a = m_borderThickness b" "m_cornerRadius a = m_cornerRadius b"
    "m_minSize a = m_minSize b" "m_divide a = m_divide b" "node_bounds a = node_bounds b"
    "node.more a = node.more b" "spacing a = spacing b"
proof -
  show "m_style a = m_style b" using arg_cong [OF assms, of m_style] by (simp add: reset_caches_same)
  show "m_text a = m_text b" using arg_cong [OF assms, of m_text] by (simp add: reset_caches_same)
  show "m_font a = m_font b" using arg_cong [OF assms, of m_font] by (simp add: reset_caches_same)
  show "m_id a = m_id b" using arg_cong [OF assms, of m_id] by (simp add: reset_caches_same)
  show "m_result a = m_result b" using arg_cong [OF assms, of m_result] by (simp add: reset_caches_same)
  show "m_icon a = m_icon b" using arg_cong [OF assms, of m_icon] by (simp add: reset_caches_same)
  show "m_borderThickness a = m_borderThickness b"
    using arg_cong [OF assms, of m_borderThickness] by (simp add: reset_caches_same)
  show "m_cornerRadius a = m_cornerRadius b"
    using arg_cong [OF assms, of m_cornerRadius] by (simp add: reset_caches_same)
  show "m_minSize a = m_minSize b" using arg_cong [OF assms, of m_minSize] by (simp add: reset_caches_same)
  show "m_divide a = m_divide b" using arg_cong [OF assms, of m_divide] by (simp add: reset_caches_same)
  show "node_bounds a = node_bounds b" using arg_cong [OF assms, of node_bounds] by (simp add: reset_caches_same)
  show "node.more a = node.more b" using arg_cong [OF assms, of node.more] by (simp add: reset_caches_same)
  show "spacing a = spacing b" using arg_cong [OF assms, of spacing] by (simp add: reset_caches_same)
qed

lemma OnLayout_determined:
  assumes r: "reset_caches a = reset_caches b"
    and t: "m_rcText (snd (OnLayout dc a)) = m_rcText (snd (OnLayout dc b))"
    and i: "(m_rcIcon (snd (OnLayout dc a)))\<lparr>rc_y := 0\<rparr> = (m_rcIcon (snd (OnLayout dc b)))\<lparr>rc_y := 0\<rparr>"
    and s: "(m_rcResult (snd (OnLayout dc a)))\<lparr>rc_y := 0\<rparr> = (m_rcResult (snd (OnLayout dc b)))\<lparr>rc_y := 0\<rparr>"
  shows "snd (OnLayout dc b) = snd (OnLayout dc a)"
proof -
  define A where
    "A = layout_result (layout_font dc a) (layout_icon (layout_text (layout_font dc a) a))"
  define B where
    "B = layout_result (layout_font dc b) (layout_icon (layout_text (layout_font dc b) b))"
  have fa: "snd (OnLayout dc a) =
      layout_centre (grown_bounds (layout_minSize A)) (layout_grow (layout_minSize A))"
    unfolding A_def by (rule OnLayout_snd)
  have fb: "snd (OnLayout dc b) =
      layout_centre (grown_bounds (layout_minSize B)) (layout_grow (layout_minSize B))"
    unfolding B_def by (rule OnLayout_snd)
  have tt: "m_rcText B = m_rcText A"
    using t unfolding fa fb by (simp add: finish_simps)
  have ii: "(m_rcIcon A)\<lparr>rc_y := 0\<rparr> = (m_rcIcon B)\<lparr>rc_y := 0\<rparr>"
    using i unfolding fa fb by (simp add: finish_simps)
  have ss: "(m_rcResult A)\<lparr>rc_y := 0\<rparr> = (m_rcResult B)\<lparr>rc_y := 0\<rparr>"
    using s unfolding fa fb by (simp add: finish_simps)
  note d = reset_caches_eqD [OF r]
  have "B = A\<lparr>m_rcIcon := (m_rcIcon A)\<lparr>rc_y := rc_y (m_rcIcon B)\<rparr>,
               m_rcResult := (m_rcResult A)\<lparr>rc_y := rc_y (m_rcResult B)\<rparr>\<rparr>"
  proof (rule node.equality)
    show "m_rcText B = m_rcText (A\<lparr>m_rcIcon := (m_rcIcon A)\<lparr>rc_y := rc_y (m_rcIcon B)\<rparr>,
               m_rcResult := (m_rcResult A)\<lparr>rc_y := rc_y (m_rcResult B)\<rparr>\<rparr>)"
      using tt by simp
    have "(m_rcIcon A)\<lparr>rc_y := rc_y (m_rcIcon B)\<rparr> = m_rcIcon B"
      using ii by (rule rect_up_to_y)
    then show "m_rcIcon B = m_rcIcon (A\<lparr>m_rcIcon := (m_rcIcon A)\<lparr>rc_y := rc_y (m_rcIcon B)\<rparr>,
               m_rcResult := (m_rcResult A)\<lparr>rc_y := rc_y (m_rcResult B)\<rparr>\<rparr>)"
      by simp
    have "(m_rcResult A)\<lparr>rc_y := rc_y (m_rcResult B)\<rparr> = m_rcResult B"
      using ss by (rule rect_up_to_y)
    then show "m_rcResult B = m_rcResult (A\<lparr>m_rcIcon := (m_rcIcon A)\<lparr>rc_y := rc_y (m_rcIcon B)\<rparr>,
               m_rcResult := (m_rcResult A)\<lparr>rc_y := rc_y (m_rcResult B)\<rparr>\<rparr>)"
      by simp
  qed (simp_all add: A_def B_def rects_simps d)
  then show ?thesis
    unfolding fa fb by (rule finish_ignores_y)
qed

lemma OnLayout_icon_width:
  "rc_width (m_rcIcon (snd (OnLayout dc n))) =
     (if icon_ok (m_icon n) \<and> IsEmpty (m_rcIcon n) then icon_width (m_icon n)
      else rc_width (m_rcIcon n))"
proof -
  have "rc_width (m_rcIcon (snd (OnLayout dc n))) =
      rc_width ((m_rcIcon (snd (OnLayout dc n)))\<lparr>rc_y := 0\<rparr>)"
    by simp
  also have "\<dots> = (if icon_ok (m_icon n) \<and> IsEmpty (m_rcIcon n) then icon_width (m_icon n)
      else rc_width (m_rcIcon n))"
    unfolding OnLayout_rcIcon by simp
  finally show ?thesis .
qed

text \<open>
  The caches are valid exactly when every cached rectangle that is not empty is the one a
  layout pass would compute: the label rectangle from the spacing and the measured label,
  the icon rectangle from the spacing and the icon's size, and the result rectangle from the
  spacing, the icon's width and the measured result text.
\<close>

lemma caches_valid_iff:
  "caches_valid dc n \<longleftrightarrow>
     (IsEmpty (m_rcText n) \<or>
      m_rcText n = mkRect (spacing n) (spacing n) (fst (dc_extent dc (m_font n) (m_text n)))
                     (snd (dc_extent dc (m_font n) (m_text n)))) \<and>
     ((m_rcIcon n)\<lparr>rc_y := 0\<rparr> =
        (if icon_ok (m_icon n)
         then (if IsEmpty (m_rcIcon n) then (m_rcIcon n)\<lparr>rc_y := 0\<rparr>
               else mkRect (spacing n) 0 (icon_width (m_icon n)) (icon_height (m_icon n)))
         else wxRect0)) \<and>
     (IsEmpty (m_rcResult n) \<or>
      (m_rcResult n)\<lparr>rc_y := 0\<rparr> =
        mkRect (spacing n + ((if icon_ok (m_icon n) then icon_width (m_icon n) else 0) + spacing n)) 0
          (fst (dc_extent dc (m_font n) (m_result n)))
          (snd (dc_extent dc (m_font n) (m_result n))))"
  (is "_ \<longleftrightarrow> ?T \<and> ?I \<and> ?R")
proof -
  let ?a = "reset_caches n"
  have r: "reset_caches ?a = reset_caches n"
    by (simp add: reset_caches_def)
  have t: "m_rcText (snd (OnLayout dc ?a)) = m_rcText (snd (OnLayout dc n)) \<longleftrightarrow> ?T"
    by (auto simp add: OnLayout_rcText reset_caches_same reset_caches_changed)
  have i: "(m_rcIcon (snd (OnLayout dc ?a)))\<lparr>rc_y := 0\<rparr> =
           (m_rcIcon (snd (OnLayout dc n)))\<lparr>rc_y := 0\<rparr> \<longleftrightarrow> ?I"
    by (auto simp add: OnLayout_rcIcon reset_caches_same reset_caches_changed)
  have s: "?I \<Longrightarrow> (m_rcResult (snd (OnLayout dc ?a)))\<lparr>rc_y := 0\<rparr> =
           (m_rcResult (snd (OnLayout dc n)))\<lparr>rc_y := 0\<rparr> \<longleftrightarrow> ?R"
  proof -
    assume I: ?I
    have w: "rc_width (m_rcIcon (snd (OnLayout dc n))) =
        (if icon_ok (m_icon n) then icon_width (m_icon n) else 0)"
      using arg_cong [OF I, of rc_width]
      by (auto simp add: OnLayout_icon_width split: if_splits)
    have w0: "rc_width (m_rcIcon (snd (OnLayout dc ?a))) =
        (if icon_ok (m_icon n) then icon_width (m_icon n) else 0)"
      by (simp add: OnLayout_icon_width reset_caches_same reset_caches_changed)
    show ?thesis
      unfolding OnLayout_rcResult w w0
      by (auto simp add: reset_caches_same reset_caches_changed)
  qed
  show ?thesis
  proof
    assume "caches_valid dc n"
    then have e: "snd (OnLayout dc n) = snd (OnLayout dc ?a)"
      by (simp add: caches_valid_def)
    have T: ?T using t e by simp
    have I: ?I using i e by simp
    have R: ?R using s [OF I] e by simp
    from T I R show "?T \<and> ?I \<and> ?R" by blast
  next
    assume h: "?T \<and> ?I \<and> ?R"
    then have T: ?T and I: ?I and R: ?R by blast+
    have "snd (OnLayout dc n) = snd (OnLayout dc ?a)"
      using r t [THEN iffD2, OF T] i [THEN iffD2, OF I] s [OF I, THEN iffD2, OF R]
      by (rule OnLayout_determined)
    then show "caches_valid dc n"
      by (simp add: caches_valid_def)
  qed
qed

text \<open>
  \<open>SetIcon\<close> resets the icon rectangle only, while the result rectangle is placed to the
  right of the icon. At the sample node, given an icon 32 pixels wide, the layout pass that
  follows places the icon over the columns 9 to 40 and leaves the result rectangle at column
  34, where a pass from empty caches places it at column 50.
\<close>

lemma SetIcon_stale_result:
  "\<not> caches_valid demo_dc (SetIcon (\<lambda>n. n) wide_icon demo_node) \<and>
   m_rcIcon (SetIcon (\<lambda>n. n) wide_icon demo_node) = wxRect0 \<and>
   m_rcResult (SetIcon (\<lambda>n. n) wide_icon demo_node) = mkRect 34 36 14 12 \<and>
   GetRight (m_rcIcon (snd (OnLayout demo_dc (SetIcon (\<lambda>n. n) wide_icon demo_node)))) = 40 \<and>
   rc_x (m_rcResult (snd (OnLayout demo_dc (SetIcon (\<lambda>n. n) wide_icon demo_node)))) = 34 \<and>
   rc_x (m_rcResult (snd (OnLayout demo_dc (reset_caches (demo_node\<lparr>m_icon := wide_icon\<rparr>))))) = 50"
proof -
  let ?n = "SetIcon (\<lambda>n. n) wide_icon demo_node"
  have n: "?n = demo_node\<lparr>m_icon := wide_icon, m_rcIcon := wxRect0\<rparr>"
    by (simp add: SetIcon_def)
  have sp: "spacing ?n = 9" "spacing (reset_caches (demo_node\<lparr>m_icon := wide_icon\<rparr>)) = 9"
    using demo_spacing by (simp_all add: n spacing_def reset_caches_def)
  have f: "m_icon ?n = wide_icon" "m_rcIcon ?n = wxRect0" "m_rcResult ?n = mkRect 34 36 14 12"
    "m_rcText ?n = mkRect 9 9 21 12" "m_result ?n = ''42''" "m_font ?n = 0"
    unfolding n by (simp_all add: demo_node_def)
  have a: "\<not> caches_valid demo_dc ?n"
    unfolding caches_valid_iff sp f
    by (simp add: wide_icon_def demo_dc_def mkRect_def IsEmpty_def)
  have i: "rc_x ((m_rcIcon (snd (OnLayout demo_dc ?n)))\<lparr>rc_y := 0\<rparr>) = 9"
    "rc_width ((m_rcIcon (snd (OnLayout demo_dc ?n)))\<lparr>rc_y := 0\<rparr>) = 32"
    unfolding OnLayout_rcIcon sp f by (simp_all add: wide_icon_def)
  then have g: "GetRight (m_rcIcon (snd (OnLayout demo_dc ?n))) = 40"
    by (simp add: GetRight_def)
  have "rc_x ((m_rcResult (snd (OnLayout demo_dc ?n)))\<lparr>rc_y := 0\<rparr>) = 34"
    unfolding OnLayout_rcResult sp f by (simp add: IsEmpty_def)
  then have x: "rc_x (m_rcResult (snd (OnLayout demo_dc ?n))) = 34"
    by simp
  have "rc_x ((m_rcResult (snd (OnLayout demo_dc (reset_caches (demo_node\<lparr>m_icon := wide_icon\<rparr>)))))\<lparr>rc_y := 0\<rparr>) = 50"
    unfolding OnLayout_rcResult OnLayout_icon_width sp
    by (simp add: reset_caches_def wide_icon_def)
  then have y: "rc_x (m_rcResult (snd (OnLayout demo_dc (reset_caches (demo_node\<lparr>m_icon := wide_icon\<rparr>))))) = 50"
    by simp
  from a f g x y show ?thesis
    by blast
qed

section \<open>Hit testing\<close>

text \<open>
  C10. For a node whose style is not \<open>Style_Custom\<close>, \<open>HitTest\<close> answers \<open>Hit_No\<close>
  for a point outside the bounds and \<open>Hit_Yes\<close> for a point inside them; it never answers
  with one of the sub-region tags \<open>Hit_Operation\<close>, \<open>Hit_Result\<close>, \<open>Hit_Image\<close>.
\<close>

theorem HitTest_other_style:
  "m_style n \<noteq> Style_Custom \<Longrightarrow>
     HitTest n pt = (if Inside (GetBounds n) pt then Hit_Yes else Hit_No) \<and>
     HitTest n pt \<notin> {Hit_Operation, Hit_Result, Hit_Image}"
  by (simp add: HitTest_def Let_def)

theorem HitTest_other_style_witness:
  "m_style (demo_node\<lparr>m_style := Style_Diamond\<rparr>) \<noteq> Style_Custom \<and>
   HitTest (demo_node\<lparr>m_style := Style_Diamond\<rparr>) (mkPoint 12 12) = Hit_Yes \<and>
   HitTest (demo_node\<lparr>m_style := Style_Diamond\<rparr>) (mkPoint 12 12)
     \<notin> {Hit_Operation, Hit_Result, Hit_Image}"
  using HitTest_other_style [of "demo_node\<lparr>m_style := Style_Diamond\<rparr>" "mkPoint 12 12"]
  by (simp add: demo_node_def Style_Custom_def Style_Diamond_def geom_defs)

text \<open>
  C9, as stated, at a node of another style: the point (35,40) lies inside the bounds and
  inside the result rectangle translated by the bounds' top-left corner, and not inside the
  label rectangle, yet \<open>HitTest\<close> answers the generic tag, not the result tag.
\<close>

theorem HitTest_priority_counterexample:
  "Inside (GetBounds (demo_node\<lparr>m_style := Style_Rectangle\<rparr>)) (mkPoint 35 40) \<and>
   Inside (m_rcResult (demo_node\<lparr>m_style := Style_Rectangle\<rparr>))
     (pt_sub (mkPoint 35 40) (GetTopLeft (GetBounds (demo_node\<lparr>m_style := Style_Rectangle\<rparr>)))) \<and>
   \<not> Inside (m_rcText (demo_node\<lparr>m_style := Style_Rectangle\<rparr>))
     (pt_sub (mkPoint 35 40) (GetTopLeft (GetBounds (demo_node\<lparr>m_style := Style_Rectangle\<rparr>)))) \<and>
   HitTest (demo_node\<lparr>m_style := Style_Rectangle\<rparr>) (mkPoint 35 40) = Hit_Yes \<and>
   HitTest (demo_node\<lparr>m_style := Style_Rectangle\<rparr>) (mkPoint 35 40) \<noteq> Hit_Result"
  by (simp add: HitTest_def Let_def demo_node_def geom_defs Style_Custom_def Style_Rectangle_def)

text \<open>
  C9, amended. For a node whose style is \<open>Style_Custom\<close>: \<open>HitTest\<close> answers \<open>Hit_No\<close>
  for a point outside the bounds; otherwise it tests the point, translated by the bounds'
  top-left corner, against the label, result and icon rectangles in this order and answers
  the tag of the first that contains it, else \<open>Hit_Yes\<close>. In particular a point inside the
  bounds and the result rectangle gets the result tag, or the label tag when the label
  rectangle contains it too, and never the generic tag.
\<close>

theorem HitTest_custom_priority:
  assumes "m_style n = Style_Custom"
  shows "HitTest n pt =
     (if \<not> Inside (GetBounds n) pt then Hit_No
      else if Inside (m_rcText n) (pt_sub pt (GetTopLeft (GetBounds n))) then Hit_Operation
      else if Inside (m_rcResult n) (pt_sub pt (GetTopLeft (GetBounds n))) then Hit_Result
      else if Inside (m_rcIcon n) (pt_sub pt (GetTopLeft (GetBounds n))) then Hit_Image
      else Hit_Yes) \<and>
    (Inside (GetBounds n) pt \<and> Inside (m_rcResult n) (pt_sub pt (GetTopLeft (GetBounds n))) \<longrightarrow>
       HitTest n pt = (if Inside (m_rcText n) (pt_sub pt (GetTopLeft (GetBounds n)))
                       then Hit_Operation else Hit_Result) \<and>
       HitTest n pt \<noteq> Hit_Yes)"
  using assms by (simp add: HitTest_def Let_def)

theorem HitTest_custom_priority_witness:
  "m_style demo_node = Style_Custom \<and>
   Inside (GetBounds demo_node) (mkPoint 35 40) \<and>
   Inside (m_rcResult demo_node) (pt_sub (mkPoint 35 40) (GetTopLeft (GetBounds demo_node))) \<and>
   HitTest demo_node (mkPoint 35 40) = Hit_Result"
  using HitTest_custom_priority [of demo_node "mkPoint 35 40"]
  by (simp add: demo_node_def geom_defs)

section \<open>Cache invalidation by the setters\<close>

text \<open>
  C4, as stated, at the sample node, with nothing recomputed yet (the code the setter hands
  over to is the identity): after \<open>SetText\<close> the result rectangle is still the one cached
  before, after \<open>SetFont\<close> the icon rectangle is, after \<open>SetResult\<close> the icon rectangle
  is, and after \<open>SetIcon\<close> the label rectangle is.
\<close>

theorem setters_reset_all_counterexample:
  "\<not> IsEmpty (m_rcResult (SetText (\<lambda>t n. n) ''max'' demo_node)) \<and>
   \<not> IsEmpty (m_rcIcon (SetFont (\<lambda>f n. n) 1 demo_node)) \<and>
   m_rcIcon (SetResult (\<lambda>n. n) ''7'' demo_node) = mkRect 9 34 16 16 \<and>
   \<not> IsEmpty (m_rcIcon (SetResult (\<lambda>n. n) ''7'' demo_node)) \<and>
   \<not> IsEmpty (m_rcText (SetIcon (\<lambda>n. n) wide_icon demo_node))"
  by (simp add: SetText_def SetFont_def SetResult_def SetIcon_def demo_node_def geom_defs)

text \<open>
  C4, amended. For the setters \<open>SetText\<close>, \<open>SetFont\<close>, \<open>SetResult\<close>,
  \<open>SetBorderThickness\<close> and \<open>SetCornerRadius\<close>: when the setter hands over it has stored
  the new value and reset the cached rectangles that depend on it, \<open>SetText\<close> the label
  rectangle, \<open>SetFont\<close> the label and result rectangles, \<open>SetResult\<close> the result
  rectangle, \<open>SetBorderThickness\<close> and \<open>SetCornerRadius\<close> all three; and for a node whose
  caches were valid, the layout pass that follows yields the node it yields when all three
  rectangles have been reset.
\<close>

theorem setters_reset_dependent_caches:
  "SetText GraphNode_SetText label n = n\<lparr>m_text := label, m_rcText := wxRect0\<rparr> \<and>
   SetFont GraphNode_SetFont font n =
     n\<lparr>m_font := font, m_rcText := wxRect0, m_rcResult := wxRect0\<rparr> \<and>
   SetResult Layout res n = Layout (n\<lparr>m_result := res, m_rcResult := wxRect0\<rparr>) \<and>
   SetBorderThickness Layout thickness n =
     Layout (reset_caches (n\<lparr>m_borderThickness := thickness\<rparr>)) \<and>
   SetCornerRadius Layout radius n = Layout (reset_caches (n\<lparr>m_cornerRadius := radius\<rparr>)) \<and>
   (caches_valid dc n \<longrightarrow>
      snd (OnLayout dc (SetText GraphNode_SetText label n)) =
        snd (OnLayout dc (reset_caches (n\<lparr>m_text := label\<rparr>))) \<and>
      snd (OnLayout dc (SetFont GraphNode_SetFont font n)) =
        snd (OnLayout dc (reset_caches (n\<lparr>m_font := font\<rparr>))) \<and>
      snd (OnLayout dc (SetResult (\<lambda>n. n) res n)) =
        snd (OnLayout dc (reset_caches (n\<lparr>m_result := res\<rparr>))))"
proof -
  have sp: "spacing (n\<lparr>m_text := label\<rparr>) = spacing n" "spacing (n\<lparr>m_font := font\<rparr>) = spacing n"
    "spacing (n\<lparr>m_result := res\<rparr>) = spacing n"
    by (simp_all add: spacing_def)
  have t1: "SetText GraphNode_SetText label n = n\<lparr>m_text := label, m_rcText := wxRect0\<rparr>"
    by (simp add: SetText_def GraphNode_SetText_def)
  have f1: "SetFont GraphNode_SetFont font n =
       n\<lparr>m_font := font, m_rcText := wxRect0, m_rcResult := wxRect0\<rparr>"
    by (simp add: SetFont_def GraphNode_SetFont_def)
  have r1: "SetResult Layout res n = Layout (n\<lparr>m_result := res, m_rcResult := wxRect0\<rparr>)"
    by (simp add: SetResult_def)
  have b1: "SetBorderThickness Layout thickness n =
       Layout (reset_caches (n\<lparr>m_borderThickness := thickness\<rparr>))"
    by (simp add: SetBorderThickness_def reset_caches_def)
  have c1: "SetCornerRadius Layout radius n = Layout (reset_caches (n\<lparr>m_cornerRadius := radius\<rparr>))"
    by (simp add: SetCornerRadius_def reset_caches_def)
  have l: "snd (OnLayout dc (SetText GraphNode_SetText label n)) =
        snd (OnLayout dc (reset_caches (n\<lparr>m_text := label\<rparr>))) \<and>
      snd (OnLayout dc (SetFont GraphNode_SetFont font n)) =
        snd (OnLayout dc (reset_caches (n\<lparr>m_font := font\<rparr>))) \<and>
      snd (OnLayout dc (SetResult (\<lambda>n. n) res n)) =
        snd (OnLayout dc (reset_caches (n\<lparr>m_result := res\<rparr>)))"
    if valid: "caches_valid dc n"
  proof -
    note v = valid [unfolded caches_valid_iff]
    have t0: "reset_caches (n\<lparr>m_text := label\<rparr>) =
        reset_caches (n\<lparr>m_text := label, m_rcText := wxRect0\<rparr>)"
      by (simp add: reset_caches_def)
    have "caches_valid dc (n\<lparr>m_text := label, m_rcText := wxRect0\<rparr>)"
      unfolding caches_valid_iff using v by (auto simp add: sp split: if_splits)
    then have t2: "snd (OnLayout dc (SetText GraphNode_SetText label n)) =
         snd (OnLayout dc (reset_caches (n\<lparr>m_text := label\<rparr>)))"
      unfolding t1 t0 caches_valid_def .
    have f0: "reset_caches (n\<lparr>m_font := font\<rparr>) =
        reset_caches (n\<lparr>m_font := font, m_rcText := wxRect0, m_rcResult := wxRect0\<rparr>)"
      by (simp add: reset_caches_def)
    have "caches_valid dc (n\<lparr>m_font := font, m_rcText := wxRect0, m_rcResult := wxRect0\<rparr>)"
      unfolding caches_valid_iff using v by (auto simp add: sp split: if_splits)
    then have f2: "snd (OnLayout dc (SetFont GraphNode_SetFont font n)) =
         snd (OnLayout dc (reset_caches (n\<lparr>m_font := font\<rparr>)))"
      unfolding f1 f0 caches_valid_def .
    have r1': "SetResult (\<lambda>n. n) res n = n\<lparr>m_result := res, m_rcResult := wxRect0\<rparr>"
      by (simp add: SetResult_def)
    have r0: "reset_caches (n\<lparr>m_result := res\<rparr>) =
        reset_caches (n\<lparr>m_result := res, m_rcResult := wxRect0\<rparr>)"
      by (simp add: reset_caches_def)
    have "caches_valid dc (n\<lparr>m_result := res, m_rcResult := wxRect0\<rparr>)"
      unfolding caches_valid_iff using v by (auto simp add: sp split: if_splits)
    then have r2: "snd (OnLayout dc (SetResult (\<lambda>n. n) res n)) =
         snd (OnLayout dc (reset_caches (n\<lparr>m_result := res\<rparr>)))"
      unfolding r1' r0 caches_valid_def .
    from t2 f2 r2 show ?thesis
      by blast
  qed
  from t1 f1 r1 b1 c1 l show ?thesis
    by blast
qed

theorem setters_reset_dependent_caches_witness:
  "caches_valid demo_dc demo_node \<and>
   SetFont GraphNode_SetFont 1 demo_node =
     demo_node\<lparr>m_font := 1, m_rcText := wxRect0, m_rcResult := wxRect0\<rparr> \<and>
   snd (OnLayout demo_dc (SetText GraphNode_SetText ''max'' demo_node)) =
     snd (OnLayout demo_dc (reset_caches (demo_node\<lparr>m_text := ''max''\<rparr>))) \<and>
   snd (OnLayout demo_dc (SetResult (\<lambda>n. n) ''7'' demo_node)) =
     snd (OnLayout demo_dc (reset_caches (demo_node\<lparr>m_result := ''7''\<rparr>)))"
proof -
  have v: "caches_valid demo_dc demo_node"
    unfolding caches_valid_iff
    by (simp add: demo_spacing) (simp add: demo_node_def demo_dc_def mkRect_def IsEmpty_def)
  note t = setters_reset_dependent_caches [where dc = demo_dc and n = demo_node
      and label = "''max''" and font = 1 and res = "''7''" and Layout = "\<lambda>n. n"
      and thickness = 4 and radius = 12]
  from v t show ?thesis
    by blast
qed

section \<open>The layout pass\<close>

text \<open>
  C5. One layout pass leaves the width of the bounds equal to the larger of the previous
  width and the width of \<open>minSize\<close>, and the height equal to the larger of the previous
  height and the height of \<open>minSize\<close>, where \<open>minSize\<close> is the one the pass computed.
\<close>

theorem OnLayout_grows_to_minSize:
  "rc_width (GetBounds (snd (OnLayout dc n))) =
     max (rc_width (GetBounds n)) (sz_x (m_minSize (snd (OnLayout dc n)))) \<and>
   rc_height (GetBounds (snd (OnLayout dc n))) =
     max (rc_height (GetBounds n)) (sz_y (m_minSize (snd (OnLayout dc n))))"
  by (simp add: OnLayout_snd GetBounds_def finish_simps rects_simps)

text \<open>
  C6. After a layout pass the width of \<open>minSize\<close> is the larger of the right edges of the
  label and result rectangles plus the spacing plus 1, and its height is the larger of the
  heights of the icon and result rectangles plus the bottom of the label rectangle plus 2
  plus twice the spacing minus the border thickness; the spacing is
  cornerRadius + borderThickness/2 - (cornerRadius - borderThickness/2) * 1000000 / 1414214
  in the integer arithmetic of the source: the divisions truncate and the product is that of
  a 32-bit \<open>int\<close>, which is the mathematical product as long as
  cornerRadius - borderThickness/2 is at most 2147 in magnitude.
\<close>

theorem OnLayout_minSize:
  "m_minSize (snd (OnLayout dc n)) =
     \<lparr>sz_x = max (GetRight (m_rcText (snd (OnLayout dc n))))
                 (GetRight (m_rcResult (snd (OnLayout dc n)))) + spacing n + 1,
      sz_y = max (rc_height (m_rcIcon (snd (OnLayout dc n))))
                 (rc_height (m_rcResult (snd (OnLayout dc n)))) +
             GetBottom (m_rcText (snd (OnLayout dc n))) + 2 + 2 * spacing n -
             m_borderThickness n\<rparr> \<and>
   spacing n = m_cornerRadius n + cdiv (m_borderThickness n) 2 -
               cdiv (i32 ((m_cornerRadius n - cdiv (m_borderThickness n) 2) * 1000000)) 1414214 \<and>
   (\<bar>m_cornerRadius n - cdiv (m_borderThickness n) 2\<bar> \<le> 2147 \<longrightarrow>
      spacing n = m_cornerRadius n + cdiv (m_borderThickness n) 2 -
                  cdiv ((m_cornerRadius n - cdiv (m_borderThickness n) 2) * 1000000) 1414214)"
proof (intro conjI impI)
  show "m_minSize (snd (OnLayout dc n)) =
     \<lparr>sz_x = max (GetRight (m_rcText (snd (OnLayout dc n))))
                 (GetRight (m_rcResult (snd (OnLayout dc n)))) + spacing n + 1,
      sz_y = max (rc_height (m_rcIcon (snd (OnLayout dc n))))
                 (rc_height (m_rcResult (snd (OnLayout dc n)))) +
             GetBottom (m_rcText (snd (OnLayout dc n))) + 2 + 2 * spacing n -
             m_borderThickness n\<rparr>"
    by (rule minSize_eqI) (simp_all add: OnLayout_snd finish_simps rects_simps)
  show "spacing n = m_cornerRadius n + cdiv (m_borderThickness n) 2 -
               cdiv (i32 ((m_cornerRadius n - cdiv (m_borderThickness n) 2) * 1000000)) 1414214"
    by (simp add: spacing_def)
  assume "\<bar>m_cornerRadius n - cdiv (m_borderThickness n) 2\<bar> \<le> 2147"
  then have "- 2147 \<le> m_cornerRadius n - cdiv (m_borderThickness n) 2"
    and "m_cornerRadius n - cdiv (m_borderThickness n) 2 \<le> 2147"
    by (simp_all add: abs_le_iff)
  then have "i32 ((m_cornerRadius n - cdiv (m_borderThickness n) 2) * 1000000) =
      (m_cornerRadius n - cdiv (m_borderThickness n) 2) * 1000000"
    by (intro i32_id) simp_all
  then show "spacing n = m_cornerRadius n + cdiv (m_borderThickness n) 2 -
                  cdiv ((m_cornerRadius n - cdiv (m_borderThickness n) 2) * 1000000) 1414214"
    by (simp add: spacing_def)
qed

theorem OnLayout_minSize_witness:
  "\<bar>m_cornerRadius demo_node - cdiv (m_borderThickness demo_node) 2\<bar> \<le> 2147 \<and>
   spacing demo_node = 10 + 3 - cdiv (7 * 1000000) 1414214 \<and>
   spacing demo_node = 9"
  using OnLayout_minSize [of demo_dc demo_node]
  by (simp add: demo_params demo_spacing)

text \<open>
  C8. A second layout pass, run on the node the first pass left and with a device context
  that measures text as the first one did, leaves the node as it is: the label, result and
  icon rectangles, \<open>minSize\<close>, \<open>divide\<close> and the bounds are those after the first pass.
\<close>

theorem OnLayout_idempotent:
  assumes "dc_extent dc2 = dc_extent dc"
  shows "snd (OnLayout dc2 (snd (OnLayout dc n))) = snd (OnLayout dc n)"
proof -
  define N where "N = snd (OnLayout dc n)"
  define S where
    "S = layout_result (layout_font dc2 N) (layout_icon (layout_text (layout_font dc2 N) N))"
  have "snd (OnLayout dc2 N) =
      layout_centre (grown_bounds (layout_minSize S)) (layout_grow (layout_minSize S))"
    unfolding S_def by (rule OnLayout_snd)
  also have "\<dots> = layout_centre (grown_bounds (layout_minSize N)) (layout_grow (layout_minSize N))"
    by (rule finish_ignores_y) (rule second_pass_rects [OF assms N_def S_def])
  also have "\<dots> = N"
    by (rule finish_idem) (unfold N_def, rule OnLayout_snd)
  finally show ?thesis
    unfolding N_def .
qed

theorem OnLayout_idempotent_witness:
  "dc_extent (demo_dc\<lparr>dc_font := 3\<rparr>) = dc_extent demo_dc \<and>
   snd (OnLayout (demo_dc\<lparr>dc_font := 3\<rparr>) (snd (OnLayout demo_dc fresh_node))) =
     snd (OnLayout demo_dc fresh_node)"
  using OnLayout_idempotent [of "demo_dc\<lparr>dc_font := 3\<rparr>" demo_dc fresh_node]
  by simp

section \<open>Perimeter points\<close>

text \<open>
  C1. When the bounds deflated by cornerRadius + borderThickness/2 are empty, or the two
  points share their x coordinate, or they share their y coordinate,
  \<open>GetPerimeterPoint\<close> returns the base class's plain-rectangle point unchanged.
\<close>

theorem GetPerimeterPoint_degenerate:
  assumes "IsEmpty (Deflate (GetBounds n) (m_cornerRadius n + cdiv (m_borderThickness n) 2))
           \<or> pt_x inside = pt_x outside \<or> pt_y inside = pt_y outside"
  shows "GetPerimeterPoint fp base n inside outside = Inr (base n inside outside)"
  using assms by (auto simp add: GetPerimeterPoint_def Let_def corner_radius_def)

theorem GetPerimeterPoint_degenerate_witness:
  "pt_y (mkPoint 50 30) = pt_y (mkPoint 200 30) \<and>
   GetPerimeterPoint exact_arith (\<lambda>n p q. mkPoint 100 30) demo_node (mkPoint 50 30)
     (mkPoint 200 30) = Inr (mkPoint 100 30)"
  using GetPerimeterPoint_degenerate
    [of demo_node "mkPoint 50 30" "mkPoint 200 30" exact_arith "\<lambda>n p q. mkPoint 100 30"]
  by (simp add: mkPoint_def)

text \<open>
  C2. In whatever arithmetic the doubles are computed, \<open>GetCornerPoint\<close> returns the
  centre plus the point \<open>(int(x), int(y))\<close>, where, with both points translated by the
  centre, \<open>m\<close> is the quotient of the differences of the y and of the x coordinates,
  \<open>c = outside.y - m * outside.x\<close>, \<open>G\<close> is the square root of
  \<open>(m\<^sup>2 + 1) * (radius + 1)\<^sup>2 - c\<^sup>2\<close>, \<open>x = (sign * G - c * m) / (m\<^sup>2 + 1)\<close> and
  \<open>y = (sign * G * m + c) / (m\<^sup>2 + 1)\<close>; the result is undefined when a conversion to
  \<open>int\<close> is. The square of \<open>radius + 1\<close> is an \<open>int\<close> product, the mathematical one as
  long as \<open>radius + 1\<close> is at most 46340 in magnitude. The four call sites of
  \<open>GetPerimeterPoint\<close> pass the sign -1 for the top-left and bottom-left corners and +1
  for the top-right and bottom-right corners.
\<close>

theorem GetCornerPoint_closed_form:
  fixes fp :: "'d fp" and centre inside outside :: wxPoint and radius sign :: int
    and n :: node and base :: "node \<Rightarrow> wxPoint \<Rightarrow> wxPoint \<Rightarrow> wxPoint"
  defines "k \<equiv> pt_sub inside centre" and "pt \<equiv> pt_sub outside centre"
  defines "m \<equiv> fp_div fp (fp_of_int fp (pt_y pt - pt_y k)) (fp_of_int fp (pt_x pt - pt_x k))"
  defines "c \<equiv> fp_sub fp (fp_of_int fp (pt_y pt)) (fp_mul fp m (fp_of_int fp (pt_x pt)))"
  defines "m2p1 \<equiv> fp_add fp (fp_mul fp m m) (fp_of_int fp 1)"
  defines "G \<equiv> fp_sqrt fp
                 (fp_sub fp (fp_mul fp m2p1 (fp_of_int fp (i32 ((radius + 1) * (radius + 1)))))
                    (fp_mul fp c c))"
  defines "x \<equiv> fp_div fp (fp_sub fp (fp_mul fp (fp_of_int fp sign) G) (fp_mul fp c m)) m2p1"
    and "y \<equiv> fp_div fp (fp_add fp (fp_mul fp (fp_mul fp (fp_of_int fp sign) G) m) c) m2p1"
  defines "r \<equiv> m_cornerRadius n + cdiv (m_borderThickness n) 2"
  defines "b \<equiv> Deflate (GetBounds n) r"
    and "p \<equiv> base n inside outside"
  shows "GetCornerPoint fp centre radius sign inside outside =
           (case fp_to_int fp x of
              None \<Rightarrow> Inl Undefined_Conversion
            | Some a \<Rightarrow>
                (case fp_to_int fp y of
                   None \<Rightarrow> Inl Undefined_Conversion
                 | Some a' \<Rightarrow> Inr (pt_add centre (mkPoint a a')))) \<and>
         (\<not> IsEmpty b \<and> pt_x inside \<noteq> pt_x outside \<and> pt_y inside \<noteq> pt_y outside \<longrightarrow>
            (pt_x p < rc_x b \<and> pt_y p < rc_y b \<longrightarrow>
               GetPerimeterPoint fp base n inside outside =
                 GetCornerPoint fp (GetTopLeft b) r (- 1) inside outside) \<and>
            (pt_x p > GetRight b \<and> pt_y p < rc_y b \<longrightarrow>
               GetPerimeterPoint fp base n inside outside =
                 GetCornerPoint fp (mkPoint (GetRight b) (rc_y b)) r 1 inside outside) \<and>
            (pt_x p < rc_x b \<and> pt_y p > GetBottom b \<longrightarrow>
               GetPerimeterPoint fp base n inside outside =
                 GetCornerPoint fp (mkPoint (rc_x b) (GetBottom b)) r (- 1) inside outside) \<and>
            (pt_x p > GetRight b \<and> pt_y p > GetBottom b \<longrightarrow>
               GetPerimeterPoint fp base n inside outside =
                 GetCornerPoint fp (GetBottomRight b) r 1 inside outside)) \<and>
         (\<bar>radius + 1\<bar> \<le> 46340 \<longrightarrow>
            i32 ((radius + 1) * (radius + 1)) = (radius + 1) * (radius + 1))"
proof (intro conjI impI)
  have m: "line_m fp centre inside outside = m"
    by (simp add: line_m_def Let_def m_def k_def pt_def)
  have c: "line_c fp centre inside outside = c"
    by (simp add: line_c_def Let_def m c_def pt_def)
  have G: "fp_sqrt fp (discriminant fp centre (radius + 1) inside outside) = G"
    by (simp add: discriminant_def Let_def m c G_def m2p1_def)
  have "circle_xy fp centre (radius + 1) sign inside outside = (x, y)"
    by (simp add: circle_xy_def Let_def m c G x_def y_def m2p1_def)
  then show "GetCornerPoint fp centre radius sign inside outside =
           (case fp_to_int fp x of
              None \<Rightarrow> Inl Undefined_Conversion
            | Some a \<Rightarrow>
                (case fp_to_int fp y of
                   None \<Rightarrow> Inl Undefined_Conversion
                 | Some a' \<Rightarrow> Inr (pt_add centre (mkPoint a a'))))"
    by (simp add: GetCornerPoint_def solve_circle_def Let_def)
next
  assume g: "\<not> IsEmpty b \<and> pt_x inside \<noteq> pt_x outside \<and> pt_y inside \<noteq> pt_y outside"
    and z: "pt_x p < rc_x b \<and> pt_y p < rc_y b"
  then have "corner_call b p = Some (GetTopLeft b, - 1)"
    by (simp add: corner_call_def)
  with g show "GetPerimeterPoint fp base n inside outside =
                 GetCornerPoint fp (GetTopLeft b) r (- 1) inside outside"
    unfolding b_def p_def r_def corner_radius_def [symmetric]
    by (intro GetPerimeterPoint_call) simp_all
next
  assume g: "\<not> IsEmpty b \<and> pt_x inside \<noteq> pt_x outside \<and> pt_y inside \<noteq> pt_y outside"
    and z: "pt_x p > GetRight b \<and> pt_y p < rc_y b"
  then have "corner_call b p = Some (mkPoint (GetRight b) (rc_y b), 1)"
    by (auto simp add: corner_call_def IsEmpty_def GetRight_def)
  with g show "GetPerimeterPoint fp base n inside outside =
                 GetCornerPoint fp (mkPoint (GetRight b) (rc_y b)) r 1 inside outside"
    unfolding b_def p_def r_def corner_radius_def [symmetric]
    by (intro GetPerimeterPoint_call) simp_all
next
  assume g: "\<not> IsEmpty b \<and> pt_x inside \<noteq> pt_x outside \<and> pt_y inside \<noteq> pt_y outside"
    and z: "pt_x p < rc_x b \<and> pt_y p > GetBottom b"
  then have "corner_call b p = Some (mkPoint (rc_x b) (GetBottom b), - 1)"
    by (auto simp add: corner_call_def IsEmpty_def GetRight_def GetBottom_def)
  with g show "GetPerimeterPoint fp base n inside outside =
                 GetCornerPoint fp (mkPoint (rc_x b) (GetBottom b)) r (- 1) inside outside"
    unfolding b_def p_def r_def corner_radius_def [symmetric]
    by (intro GetPerimeterPoint_call) simp_all
next
  assume g: "\<not> IsEmpty b \<and> pt_x inside \<noteq> pt_x outside \<and> pt_y inside \<noteq> pt_y outside"
    and z: "pt_x p > GetRight b \<and> pt_y p > GetBottom b"
  then have "corner_call b p = Some (GetBottomRight b, 1)"
    by (auto simp add: corner_call_def IsEmpty_def GetRight_def GetBottom_def)
  with g show "GetPerimeterPoint fp base n inside outside =
                 GetCornerPoint fp (GetBottomRight b) r 1 inside outside"
    unfolding b_def p_def r_def corner_radius_def [symmetric]
    by (intro GetPerimeterPoint_call) simp_all
next
  assume a: "\<bar>radius + 1\<bar> \<le> 46340"
  have "(radius + 1) * (radius + 1) = \<bar>radius + 1\<bar> * \<bar>radius + 1\<bar>"
    by simp
  also have "\<dots> \<le> 46340 * 46340"
    using a by (intro mult_mono) simp_all
  finally have u: "(radius + 1) * (radius + 1) \<le> 2147483647"
    by simp
  have "0 \<le> (radius + 1) * (radius + 1)"
    by simp
  then have l: "- 2147483648 \<le> (radius + 1) * (radius + 1)"
    by linarith
  from l u show "i32 ((radius + 1) * (radius + 1)) = (radius + 1) * (radius + 1)"
    by (rule i32_id)
qed

theorem GetCornerPoint_closed_form_witness:
  "\<bar>(14::int) + 1\<bar> \<le> 46340 \<and>
   \<not> IsEmpty (Deflate (GetBounds demo_node11) 14) \<and>
   pt_x (mkPoint 54 44) \<noteq> pt_x (mkPoint (- 26) (- 16)) \<and>
   pt_y (mkPoint 54 44) \<noteq> pt_y (mkPoint (- 26) (- 16)) \<and>
   GetCornerPoint exact_arith (mkPoint 14 14) 14 (- 1) (mkPoint 54 44) (mkPoint (- 26) (- 16)) =
     Inr (mkPoint 2 5) \<and>
   GetPerimeterPoint exact_arith (\<lambda>n p q. mkPoint 0 3) demo_node11
       (mkPoint 54 44) (mkPoint (- 26) (- 16)) =
     GetCornerPoint exact_arith (mkPoint 14 14) 14 (- 1) (mkPoint 54 44) (mkPoint (- 26) (- 16))"
proof -
  note r = GetCornerPoint_closed_form [where fp = exact_arith
      and inside = "mkPoint 54 44" and outside = "mkPoint (- 26) (- 16)"
      and centre = "mkPoint 14 14" and radius = 14 and sign = "- 1" and n = demo_node11
      and base = "\<lambda>n p q. mkPoint 0 3"]
  have 1: "GetCornerPoint exact_arith (mkPoint 14 14) 14 (- 1) (mkPoint 54 44)
      (mkPoint (- 26) (- 16)) = Inr (mkPoint 2 5)"
    using r [THEN conjunct1]
    by (simp add: pt_sub_def sqrt_5625_16 truncate_def pt_add_def)
  have e: "\<not> IsEmpty (Deflate (GetBounds demo_node11) 14)"
    by (simp add: demo_bounds demo_deflated IsEmpty_def)
  have 2: "GetPerimeterPoint exact_arith (\<lambda>n p q. mkPoint 0 3) demo_node11
       (mkPoint 54 44) (mkPoint (- 26) (- 16)) =
     GetCornerPoint exact_arith (mkPoint 14 14) 14 (- 1) (mkPoint 54 44) (mkPoint (- 26) (- 16))"
    using r [THEN conjunct2, THEN conjunct1]
    by (simp add: demo11_params demo_bounds demo_deflated IsEmpty_def GetTopLeft_def)
  from 1 2 e show ?thesis by simp
qed

text \<open>
  C3, as stated, at the sample node (corner radius 10, border thickness 6, so a radius of
  13): for the plain-rectangle point (0,3) the corner solver is called with the centre
  (13,13), the top-left corner of the bounds deflated by 13; the bounds deflated by 13 + 1
  have their top-left corner at (14,14).
\<close>

theorem corner_centres_counterexample:
  "corner_call (Deflate (GetBounds demo_node)
       (m_cornerRadius demo_node + cdiv (m_borderThickness demo_node) 2)) (mkPoint 0 3) =
     Some (mkPoint 13 13, - 1) \<and>
   GetPerimeterPoint exact_arith (\<lambda>n p q. mkPoint 0 3) demo_node (mkPoint 53 43)
       (mkPoint (- 27) (- 17)) =
     GetCornerPoint exact_arith (mkPoint 13 13) 13 (- 1) (mkPoint 53 43) (mkPoint (- 27) (- 17)) \<and>
   GetTopLeft (Deflate (GetBounds demo_node)
       (m_cornerRadius demo_node + cdiv (m_borderThickness demo_node) 2 + 1)) = mkPoint 14 14 \<and>
   mkPoint 13 13 \<noteq> mkPoint 14 14"
proof -
  have c: "corner_call (mkRect 13 13 74 34) (mkPoint 0 3) = Some (mkPoint 13 13, - 1)"
    by (simp add: corner_call_def GetTopLeft_def)
  have e: "\<not> IsEmpty (mkRect 13 13 74 34)"
    by (simp add: IsEmpty_def)
  have p: "GetPerimeterPoint exact_arith (\<lambda>n p q. mkPoint 0 3) demo_node (mkPoint 53 43)
       (mkPoint (- 27) (- 17)) =
     GetCornerPoint exact_arith (mkPoint 13 13) 13 (- 1) (mkPoint 53 43) (mkPoint (- 27) (- 17))"
    by (simp add: GetPerimeterPoint_def Let_def demo_radius demo_bounds demo_deflated e c)
  have t: "GetTopLeft (Deflate (mkRect 0 0 100 60) 14) = mkPoint 14 14"
    by (simp add: GetTopLeft_def Deflate_def)
  have "mkPoint 13 13 \<noteq> mkPoint 14 14"
    by (simp add: mkPoint_def)
  with c p t show ?thesis
    by (simp add: demo_params demo_bounds demo_deflated)
qed

text \<open>
  C3, amended. The radius is bumped by 1 in one place only. With
  \<open>r = cornerRadius + borderThickness/2\<close>, the centre of every call to the corner solver
  is a corner of the bounds deflated by \<open>r\<close>, and the solver intersects with the circle of
  radius \<open>r + 1\<close>: the square root is taken of \<open>(m\<^sup>2 + 1) * (r + 1)\<^sup>2 - c\<^sup>2\<close>.
\<close>

theorem corner_circle:
  fixes fp :: "'d fp" and n :: node and base :: "node \<Rightarrow> wxPoint \<Rightarrow> wxPoint \<Rightarrow> wxPoint"
    and centre inside outside :: wxPoint and sg :: int
  defines "r \<equiv> m_cornerRadius n + cdiv (m_borderThickness n) 2"
  defines "b \<equiv> Deflate (GetBounds n) r"
  assumes ne: "\<not> IsEmpty b"
    and nx: "pt_x inside \<noteq> pt_x outside" and ny: "pt_y inside \<noteq> pt_y outside"
    and call: "corner_call b (base n inside outside) = Some (centre, sg)"
  shows "centre \<in> {GetTopLeft b, mkPoint (GetRight b) (rc_y b),
                   mkPoint (rc_x b) (GetBottom b), GetBottomRight b} \<and>
         GetPerimeterPoint fp base n inside outside =
           GetCornerPoint fp centre r sg inside outside \<and>
         GetCornerPoint fp centre r sg inside outside =
           solve_circle fp centre (r + 1) sg inside outside \<and>
         discriminant fp centre (r + 1) inside outside =
           fp_sub fp
             (fp_mul fp
                (fp_add fp
                   (fp_mul fp (line_m fp centre inside outside) (line_m fp centre inside outside))
                   (fp_of_int fp 1))
                (fp_of_int fp (i32 ((r + 1) * (r + 1)))))
             (fp_mul fp (line_c fp centre inside outside) (line_c fp centre inside outside))"
proof (intro conjI)
  show "centre \<in> {GetTopLeft b, mkPoint (GetRight b) (rc_y b),
                   mkPoint (rc_x b) (GetBottom b), GetBottomRight b}"
    using call by (rule corner_call_centre)
  have r: "r = corner_radius n"
    by (simp add: r_def corner_radius_def)
  show "GetPerimeterPoint fp base n inside outside = GetCornerPoint fp centre r sg inside outside"
    unfolding r using ne nx ny call unfolding b_def r by (rule GetPerimeterPoint_call)
  show "GetCornerPoint fp centre r sg inside outside =
           solve_circle fp centre (r + 1) sg inside outside"
    by (simp add: GetCornerPoint_def Let_def)
  show "discriminant fp centre (r + 1) inside outside =
           fp_sub fp
             (fp_mul fp
                (fp_add fp
                   (fp_mul fp (line_m fp centre inside outside) (line_m fp centre inside outside))
                   (fp_of_int fp 1))
                (fp_of_int fp (i32 ((r + 1) * (r + 1)))))
             (fp_mul fp (line_c fp centre inside outside) (line_c fp centre inside outside))"
    by (simp add: discriminant_def Let_def)
qed

theorem corner_circle_witness:
  "\<not> IsEmpty (Deflate (GetBounds demo_node11) 14) \<and>
   corner_call (Deflate (GetBounds demo_node11) 14) (mkPoint 100 56) = Some (mkPoint 85 45, 1) \<and>
   mkPoint 85 45 = GetBottomRight (Deflate (GetBounds demo_node11) 14) \<and>
   GetPerimeterPoint exact_arith (\<lambda>n p q. mkPoint 100 56) demo_node11
       (mkPoint 45 15) (mkPoint 125 75) =
     solve_circle exact_arith (mkPoint 85 45) 15 1 (mkPoint 45 15) (mkPoint 125 75) \<and>
   solve_circle exact_arith (mkPoint 85 45) 15 1 (mkPoint 45 15) (mkPoint 125 75) =
     Inr (mkPoint 97 54) \<and>
   (97 - 85) * (97 - 85) + (54 - 45) * (54 - 45) = ((14::int) + 1) * (14 + 1)"
proof -
  have r: "m_cornerRadius demo_node11 + cdiv (m_borderThickness demo_node11) 2 = 14"
    by (simp add: demo11_params)
  have ne: "\<not> IsEmpty (Deflate (GetBounds demo_node11)
      (m_cornerRadius demo_node11 + cdiv (m_borderThickness demo_node11) 2))"
    by (simp add: demo11_params demo_bounds demo_deflated IsEmpty_def)
  have nx: "pt_x (mkPoint 45 15) \<noteq> pt_x (mkPoint 125 75)"
    and ny: "pt_y (mkPoint 45 15) \<noteq> pt_y (mkPoint 125 75)"
    by simp_all
  have call: "corner_call (Deflate (GetBounds demo_node11)
      (m_cornerRadius demo_node11 + cdiv (m_borderThickness demo_node11) 2)) (mkPoint 100 56) =
      Some (mkPoint 85 45, 1)"
    by (simp add: demo11_params demo_bounds demo_deflated corner_call_def GetRight_def
        GetBottom_def GetBottomRight_def)
  note t = corner_circle [where fp = exact_arith and n = demo_node11
      and base = "\<lambda>n p q. mkPoint 100 56"
      and inside = "mkPoint 45 15" and outside = "mkPoint 125 75"
      and centre = "mkPoint 85 45" and sg = 1, OF ne nx ny call, unfolded r]
  have g: "GetPerimeterPoint exact_arith (\<lambda>n p q. mkPoint 100 56) demo_node11
       (mkPoint 45 15) (mkPoint 125 75) =
     solve_circle exact_arith (mkPoint 85 45) 15 1 (mkPoint 45 15) (mkPoint 125 75)"
    using t by simp
  have br: "mkPoint 85 45 = GetBottomRight (Deflate (GetBounds demo_node11) 14)"
    by (simp add: demo_bounds demo_deflated GetBottomRight_def GetRight_def GetBottom_def)
  have v: "solve_circle exact_arith (mkPoint 85 45) 15 1 (mkPoint 45 15) (mkPoint 125 75) =
     Inr (mkPoint 97 54)"
    by (simp add: solve_circle_def circle_xy_def discriminant_def line_c_def line_m_def Let_def
        pt_sub_def sqrt_5625_16 truncate_def pt_add_def)
  have d: "(97 - 85) * (97 - 85) + (54 - 45) * (54 - 45) = ((14::int) + 1) * (14 + 1)"
    by simp
  from ne [unfolded r] call [unfolded r] g br v d show ?thesis
    by blast
qed

text \<open>
  C7, at the sample node: the point (1,3) lies inside the bounds, off their left and top
  edges, the point (3,-3) outside them, the two differ in both coordinates and the deflated
  rectangle is not empty. The segment leaves the bounds at (2,0), in the top-left corner
  zone, so the corner solver is called with the centre (13,13). Every value up to the square
  root's argument is a small integer, which doubles compute exactly: the argument is -156,
  and the conversion of the result to \<open>int\<close> is undefined.
\<close>

theorem corner_discriminant_negative:
  "Inside (GetBounds demo_node) (mkPoint 1 3) \<and>
   rc_x (GetBounds demo_node) < pt_x (mkPoint 1 3) \<and>
   rc_y (GetBounds demo_node) < pt_y (mkPoint 1 3) \<and>
   \<not> Inside (GetBounds demo_node) (mkPoint 3 (- 3)) \<and>
   pt_x (mkPoint 1 3) \<noteq> pt_x (mkPoint 3 (- 3)) \<and>
   pt_y (mkPoint 1 3) \<noteq> pt_y (mkPoint 3 (- 3)) \<and>
   \<not> IsEmpty (Deflate (GetBounds demo_node) (corner_radius demo_node)) \<and>
   corner_call (Deflate (GetBounds demo_node) (corner_radius demo_node)) (mkPoint 2 0) =
     Some (mkPoint 13 13, - 1) \<and>
   discriminant exact_arith (mkPoint 13 13) (corner_radius demo_node + 1)
     (mkPoint 1 3) (mkPoint 3 (- 3)) = Num (- 156) \<and>
   GetPerimeterPoint exact_arith (\<lambda>n p q. mkPoint 2 0) demo_node (mkPoint 1 3) (mkPoint 3 (- 3)) =
     Inl Undefined_Conversion"
proof -
  have d: "discriminant exact_arith (mkPoint 13 13) 14 (mkPoint 1 3) (mkPoint 3 (- 3)) =
      Num (- 156)"
    by (simp add: discriminant_def line_c_def line_m_def Let_def pt_sub_def)
  have c: "corner_call (mkRect 13 13 74 34) (mkPoint 2 0) = Some (mkPoint 13 13, - 1)"
    by (simp add: corner_call_def GetTopLeft_def)
  have e: "\<not> IsEmpty (mkRect 13 13 74 34)"
    by (simp add: IsEmpty_def)
  have g: "GetCornerPoint exact_arith (mkPoint 13 13) 13 (- 1) (mkPoint 1 3) (mkPoint 3 (- 3)) =
      Inl Undefined_Conversion"
    by (simp add: GetCornerPoint_def solve_circle_def circle_xy_def d Let_def)
  have p: "GetPerimeterPoint exact_arith (\<lambda>n p q. mkPoint 2 0) demo_node (mkPoint 1 3)
      (mkPoint 3 (- 3)) = Inl Undefined_Conversion"
    by (simp add: GetPerimeterPoint_def Let_def demo_radius demo_bounds demo_deflated e c g)
  show ?thesis
    by (simp add: demo_radius demo_bounds demo_deflated d c e p Inside_def)
qed

end
